theory Spec2Isabelle
  imports Complex_Main "HOL-Library.Word"
begin

unbundle bit_operations_syntax

section \<open>Data model of \<open>fido_host/client.py\<close>\<close>

text \<open>
  Python \<open>bytes\<close> are lists of 8-bit words. A Python \<open>str\<close> is an Isabelle
  \<open>string\<close>; numbers of seconds (\<open>timeout\<close>, \<open>poll_delay\<close>) are rationals.
\<close>

type_synonym bytes = "8 word list"

text \<open>The values \<open>json.loads\<close> returns and \<open>json.dumps\<close> accepts. An object keeps its
  members in insertion order, as a Python \<open>dict\<close> does.\<close>

datatype json =
    JNull
  | JBool bool
  | JInt int
  | JStr string
  | JArr "json list"
  | JObj "(string \<times> json) list"

subsection \<open>Exceptions\<close>

text \<open>\<open>ClientError.ERR\<close> (lines 70-76).\<close>

datatype ERR = OTHER_ERROR | BAD_REQUEST | CONFIGURATION_UNSUPPORTED | DEVICE_INELIGIBLE | TIMEOUT

text \<open>The numeric codes of the \<open>IntEnum\<close>.\<close>

fun ERR_value :: "ERR \<Rightarrow> nat" where
  "ERR_value OTHER_ERROR = 1"
| "ERR_value BAD_REQUEST = 2"
| "ERR_value CONFIGURATION_UNSUPPORTED = 3"
| "ERR_value DEVICE_INELIGIBLE = 4"
| "ERR_value TIMEOUT = 5"

text \<open>The members of \<open>CtapError.ERR\<close> (module \<open>hid\<close>) that the client raises itself; every
  other code a device reports is \<open>CTAP_CODE n\<close>.\<close>

datatype ctap_err = UNSUPPORTED_OPTION | CREDENTIAL_EXCLUDED | NO_CREDENTIALS | CTAP_CODE nat

text \<open>
  Every \<open>raise\<close> of the source is a value of \<open>exn\<close>. \<open>ApduError\<close> carries the status word
  of the CTAP1 transport; \<open>PyError\<close> stands for any other exception of a collaborator.
\<close>

datatype exn =
    ApduError nat
  | CtapError ctap_err
  | ClientError ERR
  | ValueError string
  | KeyError string
  | TypeError
  | PyError string

text \<open>
  Modelled from the spec: the enumeration \<open>APDU\<close> of module \<open>u2f\<close> is not part of the
  sources at hand. The spec names the status \<open>USE_NOT_SATISFIED\<close> ("user presence not yet
  supplied, retry"); its value is the status word of the U2F raw message format. Nothing
  below depends on the number, only on the comparison \<open>e.code == APDU.USE_NOT_SATISFIED\<close>.
\<close>

definition USE_NOT_SATISFIED :: nat where
  "USE_NOT_SATISFIED = 0x6985"

subsection \<open>Responses of the transports\<close>

text \<open>\<open>RegistrationData\<close> and \<open>SignatureData\<close> of module \<open>u2f\<close>: the raw response (a
  \<open>bytes\<close> subclass) with its parsed fields.\<close>

record registration_data =
  reg_bytes :: bytes
  public_key :: bytes
  key_handle :: bytes
  certificate :: bytes
  signature :: bytes

record signature_data =
  sig_bytes :: bytes
  user_presence :: "8 word"
  counter :: "32 word"
  auth_signature :: bytes

text \<open>A value of a COSE key map, and the map itself in insertion order.\<close>

datatype cose_value = CInt int | CBytes bytes

type_synonym cose_key = "(int \<times> cose_value) list"

text \<open>
  Modelled from the spec: \<open>AttestedCredentialData.create\<close>, \<open>AuthenticatorData.create\<close>,
  \<open>AttestationObject.create\<close> and \<open>AssertionResponse.create\<close> of module \<open>fido2\<close> are not
  part of the sources at hand. Each is modelled as the record of the arguments it is
  called with (section 3 of the spec: aaguid, credId, COSE public key; rpIdHash, flags,
  signCount, attested credential data; fmt, authData, attStmt; credential, authData,
  signature, with \<open>number_of_credentials\<close> of the CTAP2 response).
\<close>

record attested_credential_data =
  aaguid :: bytes
  credential_id :: bytes
  cose_public_key :: cose_key

record authenticator_data =
  rp_id_hash :: bytes
  flags :: "8 word"
  sign_count :: "32 word"
  credential_data :: "attested_credential_data option"

record att_statement =
  x5c :: "bytes list"
  sig :: bytes

record attestation_object =
  fmt :: string
  auth_data :: authenticator_data
  att_stmt :: att_statement

text \<open>A credential descriptor \<open>{type: "public-key", id: bytes}\<close> of an exclude or allow
  list; the source reads \<open>cred['id']\<close> only.\<close>

record credential_descriptor =
  cred_type :: string
  cred_id :: bytes

record assertion_response =
  credential :: "credential_descriptor option"
  assertion_auth_data :: authenticator_data
  assertion_signature :: bytes
  number_of_credentials :: "int option"

text \<open>\<open>Info\<close> of module \<open>fido2\<close>, as far as the client reads it.\<close>

record info =
  pin_protocols :: "nat list"
  options :: "(string \<times> bool) list"

record rp_entity =
  rp_id :: string
  rp_name :: string

record key_param =
  kp_type :: string
  alg :: int

subsection \<open>Commands, the trace and the clock\<close>

text \<open>The arguments of the two CTAP2 commands, in the order of the calls at lines 259-262
  and 347-349.\<close>

record make_credential_args =
  mc_client_data_hash :: bytes
  mc_rp :: rp_entity
  mc_user :: json
  mc_key_params :: "key_param list"
  mc_exclude_list :: "credential_descriptor list option"
  mc_extensions :: "json option"
  mc_options :: "(string \<times> bool) list option"
  mc_pin_auth :: "bytes option"
  mc_pin_protocol :: "nat option"
  mc_timeout :: "rat option"

record get_assertion_args =
  ga_rp_id :: string
  ga_client_data_hash :: bytes
  ga_allow_list :: "credential_descriptor list option"
  ga_extensions :: "json option"
  ga_options :: "(string \<times> bool) list option"
  ga_pin_auth :: "bytes option"
  ga_pin_protocol :: "nat option"
  ga_timeout :: "rat option"

text \<open>Every call the client makes on a transport. \<open>Authenticate\<close> carries the challenge
  parameter, the application parameter, the key handle and \<open>check_only\<close>.\<close>

datatype cmd =
    GetVersion
  | Register bytes bytes
  | Authenticate bytes bytes bytes bool
  | GetInfo
  | GetPinToken string
  | MakeCredential make_credential_args
  | GetAssertion get_assertion_args
  | GetNextAssertion

datatype resp =
    RVersion string
  | RReg registration_data
  | RSig signature_data
  | RInfo info
  | RToken bytes
  | RAtt attestation_object
  | RAssertion assertion_response

type_synonym event = "cmd \<times> (exn + resp)"

text \<open>
  The state the client runs in: the wall clock in seconds and the calls made on the
  authenticator so far, each with its outcome.
\<close>

record world =
  now :: rat
  trace :: "event list"

text \<open>A call on the authenticator appends its event and takes some time (never negative).\<close>

definition advance :: "world \<Rightarrow> rat \<Rightarrow> event \<Rightarrow> world" where
  "advance w dt ev = \<lparr>now = now w + max 0 dt, trace = trace w @ [ev]\<rparr>"

text \<open>
  The authenticators. A device answers from everything that happened before (the world)
  and the arguments of the call, and says how long the call took.
\<close>

record ctap1 =
  dev_get_version :: "world \<Rightarrow> (exn + string) \<times> rat"
  dev_register :: "world \<Rightarrow> bytes \<Rightarrow> bytes \<Rightarrow> (exn + registration_data) \<times> rat"
  dev_authenticate ::
    "world \<Rightarrow> bytes \<Rightarrow> bytes \<Rightarrow> bytes \<Rightarrow> bool \<Rightarrow> (exn + signature_data) \<times> rat"

record ctap2 =
  dev_get_info :: "world \<Rightarrow> (exn + info) \<times> rat"
  dev_get_pin_token :: "world \<Rightarrow> string \<Rightarrow> (exn + bytes) \<times> rat"
  dev_make_credential :: "world \<Rightarrow> make_credential_args \<Rightarrow> (exn + attestation_object) \<times> rat"
  dev_get_assertion :: "world \<Rightarrow> get_assertion_args \<Rightarrow> (exn + assertion_response) \<times> rat"
  dev_get_next_assertion :: "world \<Rightarrow> (exn + assertion_response) \<times> rat"

type_synonym 'a result = "(exn + 'a) \<times> world"

text \<open>The methods of \<open>CTAP1\<close>, \<open>CTAP2\<close> and \<open>PinProtocolV1\<close> the client calls: the device
  answers, the event is appended to the trace and the clock moves on.\<close>

definition CTAP1_get_version :: "ctap1 \<Rightarrow> world \<Rightarrow> string result" where
  "CTAP1_get_version dev w =
     (case dev_get_version dev w of
        (r, dt) \<Rightarrow> (r, advance w dt (GetVersion, map_sum id RVersion r)))"

definition CTAP1_register ::
  "ctap1 \<Rightarrow> bytes \<Rightarrow> bytes \<Rightarrow> world \<Rightarrow> registration_data result" where
  "CTAP1_register dev client_param app_param w =
     (case dev_register dev w client_param app_param of
        (r, dt) \<Rightarrow> (r, advance w dt (Register client_param app_param, map_sum id RReg r)))"

definition CTAP1_authenticate ::
  "ctap1 \<Rightarrow> bytes \<Rightarrow> bytes \<Rightarrow> bytes \<Rightarrow> bool \<Rightarrow> world \<Rightarrow> signature_data result" where
  "CTAP1_authenticate dev client_param app_param kh check_only w =
     (case dev_authenticate dev w client_param app_param kh check_only of
        (r, dt) \<Rightarrow>
          (r, advance w dt (Authenticate client_param app_param kh check_only, map_sum id RSig r)))"

definition CTAP2_get_info :: "ctap2 \<Rightarrow> world \<Rightarrow> info result" where
  "CTAP2_get_info dev w =
     (case dev_get_info dev w of (r, dt) \<Rightarrow> (r, advance w dt (GetInfo, map_sum id RInfo r)))"

definition PinProtocolV1_get_pin_token :: "ctap2 \<Rightarrow> string \<Rightarrow> world \<Rightarrow> bytes result" where
  "PinProtocolV1_get_pin_token dev pin w =
     (case dev_get_pin_token dev w pin of
        (r, dt) \<Rightarrow> (r, advance w dt (GetPinToken pin, map_sum id RToken r)))"

definition CTAP2_make_credential ::
  "ctap2 \<Rightarrow> make_credential_args \<Rightarrow> world \<Rightarrow> attestation_object result" where
  "CTAP2_make_credential dev args w =
     (case dev_make_credential dev w args of
        (r, dt) \<Rightarrow> (r, advance w dt (MakeCredential args, map_sum id RAtt r)))"

definition CTAP2_get_assertion ::
  "ctap2 \<Rightarrow> get_assertion_args \<Rightarrow> world \<Rightarrow> assertion_response result" where
  "CTAP2_get_assertion dev args w =
     (case dev_get_assertion dev w args of
        (r, dt) \<Rightarrow> (r, advance w dt (GetAssertion args, map_sum id RAssertion r)))"

definition CTAP2_get_next_assertion :: "ctap2 \<Rightarrow> world \<Rightarrow> assertion_response result" where
  "CTAP2_get_next_assertion dev w =
     (case dev_get_next_assertion dev w of
        (r, dt) \<Rightarrow> (r, advance w dt (GetNextAssertion, map_sum id RAssertion r)))"

text \<open>
  Modelled from the spec: the constructors \<open>CTAP2(device)\<close> and \<open>CTAP1(device)\<close> are not
  part of the sources at hand. A device always speaks CTAP1 and may speak CTAP2; the
  CTAP2 constructor rejects (with \<open>ValueError\<close>) a device that does not.
\<close>

record device =
  u2f :: ctap1
  cbor :: "ctap2 option"

definition CTAP1 :: "device \<Rightarrow> ctap1" where
  "CTAP1 dev = u2f dev"

definition CTAP2 :: "device \<Rightarrow> exn + ctap2" where
  "CTAP2 dev = (case cbor dev of None \<Rightarrow> Inl (ValueError ''Device does not support CTAP2.'')
                | Some c \<Rightarrow> Inr c)"

text \<open>
  Modelled from the spec: \<open>PinProtocolV1.VERSION\<close> of module \<open>fido2\<close> is not part of the
  sources at hand; the spec says the PIN protocol version is 1.
\<close>

definition VERSION :: nat where
  "VERSION = 1"

subsection \<open>The collaborators out of scope\<close>

text \<open>
  SHA-256, HMAC-SHA-256, the base64url codec, the JSON codec, the string codec and the
  two origin verifiers (modules \<open>utils\<close>, \<open>rpid\<close>, \<open>json\<close>) are parameters of the model:
  every definition below takes them in a record, and every theorem holds for all of them.
\<close>

record prims =
  sha256 :: "bytes \<Rightarrow> bytes"
  hmac_sha256 :: "bytes \<Rightarrow> bytes \<Rightarrow> bytes"
  websafe_encode :: "bytes \<Rightarrow> string"
  websafe_decode :: "string \<Rightarrow> exn + bytes"
  json_dumps :: "json \<Rightarrow> string"
  json_loads :: "string \<Rightarrow> exn + json"
  encode :: "string \<Rightarrow> bytes"
  decode :: "bytes \<Rightarrow> exn + string"
  verify_app_id :: "string \<Rightarrow> string \<Rightarrow> exn + bool"
  verify_rp_id :: "string \<Rightarrow> string \<Rightarrow> exn + bool"

section \<open>The polling driver (lines 88-98)\<close>

text \<open>
  Modelled from the spec: \<open>Timeout\<close> of module \<open>utils\<close> is not part of the sources at
  hand. The spec describes it as a scoped timeout event whose \<open>wait(delay)\<close> becomes a
  no-op after expiry: the event is set once the budget has elapsed since the scope was
  entered, and \<open>wait\<close> returns after \<open>delay\<close> seconds or when the event is set, whichever
  comes first.
\<close>

definition is_set :: "rat \<Rightarrow> world \<Rightarrow> bool" where
  "is_set deadline w \<longleftrightarrow> deadline \<le> now w"

definition wait :: "rat \<Rightarrow> rat \<Rightarrow> world \<Rightarrow> world" where
  "wait deadline delay w =
     (if is_set deadline w then w else w\<lparr>now := min (now w + max 0 delay) deadline\<rparr>)"

text \<open>Python's \<open>timeout or 30\<close>: \<open>None\<close> and \<open>0\<close> are both falsy.\<close>

definition timeout_or_30 :: "rat option \<Rightarrow> rat" where
  "timeout_or_30 timeout = (case timeout of None \<Rightarrow> 30 | Some t \<Rightarrow> if t = 0 then 30 else t)"

text \<open>The \<open>while not event.is_set()\<close> loop. It need not end (an operation may keep failing
  without time passing), so not returning is the value \<open>None\<close>.\<close>

partial_function (option) poll_loop ::
  "rat \<Rightarrow> rat \<Rightarrow> (world \<Rightarrow> 'a result) \<Rightarrow> world \<Rightarrow> 'a result option" where
  "poll_loop poll_delay deadline func w =
     (if is_set deadline w then Some (Inl (ClientError TIMEOUT), w)
      else (case func w of
              (Inr v, w1) \<Rightarrow> Some (Inr v, w1)
            | (Inl e, w1) \<Rightarrow>
                (case e of
                   ApduError code \<Rightarrow>
                     if code = USE_NOT_SATISFIED
                     then poll_loop poll_delay deadline func (wait deadline poll_delay w1)
                     else Some (Inl e, w1)
                 | _ \<Rightarrow> Some (Inl e, w1))))"

declare poll_loop.simps [code]

definition call_polling ::
  "rat \<Rightarrow> rat option \<Rightarrow> (world \<Rightarrow> 'a result) \<Rightarrow> world \<Rightarrow> 'a result option" where
  "call_polling poll_delay timeout func w =
     poll_loop poll_delay (now w + timeout_or_30 timeout) func w"

section \<open>\<open>ClientData\<close> (lines 40-65)\<close>

text \<open>The blob itself (\<open>ClientData\<close> is a \<open>bytes\<close> subclass) with the two attributes
  \<open>__init__\<close> sets.\<close>

record client_data =
  cd_bytes :: bytes
  cd_data :: json
  cd_origin :: json

text \<open>Python's \<open>value[key]\<close> with a string key: a lookup in a \<open>dict\<close> (each key occurs
  once there), \<open>KeyError\<close> when the key is missing, \<open>TypeError\<close> on anything that is
  not a \<open>dict\<close>.\<close>

fun getitem :: "json \<Rightarrow> string \<Rightarrow> exn + json" where
  "getitem (JObj kvs) k = (case map_of kvs k of None \<Rightarrow> Inl (KeyError k) | Some v \<Rightarrow> Inr v)"
| "getitem _ k = Inl TypeError"

definition ClientData_init :: "prims \<Rightarrow> bytes \<Rightarrow> exn + client_data" where
  "ClientData_init p data =
     (case decode p data of
        Inl e \<Rightarrow> Inl e
      | Inr text \<Rightarrow>
          (case json_loads p text of
             Inl e \<Rightarrow> Inl e
           | Inr j \<Rightarrow>
               (case getitem j ''origin'' of
                  Inl e \<Rightarrow> Inl e
                | Inr v \<Rightarrow> Inr \<lparr>cd_bytes = data, cd_data = j, cd_origin = v\<rparr>)))"

definition b64 :: "prims \<Rightarrow> client_data \<Rightarrow> string" where
  "b64 p cd = websafe_encode p (cd_bytes cd)"

definition hash :: "prims \<Rightarrow> client_data \<Rightarrow> bytes" where
  "hash p cd = sha256 p (cd_bytes cd)"

definition ClientData_build :: "prims \<Rightarrow> (string \<times> json) list \<Rightarrow> exn + client_data" where
  "ClientData_build p kwargs = ClientData_init p (encode p (json_dumps p (JObj kwargs)))"

definition ClientData_from_b64 :: "prims \<Rightarrow> string \<Rightarrow> exn + client_data" where
  "ClientData_from_b64 p data =
     (case websafe_decode p data of Inl e \<Rightarrow> Inl e | Inr raw \<Rightarrow> ClientData_init p raw)"

section \<open>\<open>U2fClient\<close> (lines 101-185)\<close>

type_synonym verifier = "string \<Rightarrow> string \<Rightarrow> exn + bool"

record u2f_client =
  poll_delay :: rat
  u2f_ctap :: ctap1
  u2f_origin :: string
  u2f_verify :: verifier

text \<open>\<open>__init__\<close> (lines 102-106): the \<open>verify\<close> argument is accepted; the attribute is set
  to \<open>verify_app_id\<close>.\<close>

definition U2fClient_init :: "prims \<Rightarrow> device \<Rightarrow> string \<Rightarrow> verifier \<Rightarrow> u2f_client" where
  "U2fClient_init p dev origin verify =
     \<lparr>poll_delay = 1 / 4, u2f_ctap = CTAP1 dev, u2f_origin = origin,
      u2f_verify = verify_app_id p\<rparr>"

text \<open>\<open>_verify_app_id\<close> (lines 108-114): only a true answer of the verifier returns; a false
  answer and every exception end in \<open>BAD_REQUEST\<close>.\<close>

definition U2fClient_verify_app_id :: "u2f_client \<Rightarrow> string \<Rightarrow> exn + unit" where
  "U2fClient_verify_app_id self app_id =
     (case u2f_verify self app_id (u2f_origin self) of
        Inr True \<Rightarrow> Inr ()
      | _ \<Rightarrow> Inl (ClientError BAD_REQUEST))"

record registered_key =
  version :: string
  keyHandle :: string
  appId :: "string option"

record register_request =
  request_version :: string
  challenge :: json

definition dummy_param :: bytes where
  "dummy_param = replicate 32 0"

text \<open>The first loop of \<open>register\<close> (lines 122-134).\<close>

fun register_check_keys ::
  "prims \<Rightarrow> u2f_client \<Rightarrow> string \<Rightarrow> string \<Rightarrow> registered_key list \<Rightarrow> world \<Rightarrow> unit result" where
  "register_check_keys p self app_id v [] w = (Inr (), w)"
| "register_check_keys p self app_id v (key # keys) w =
     (if version key \<noteq> v then register_check_keys p self app_id v keys w
      else
        let key_app_id = (case appId key of None \<Rightarrow> app_id | Some a \<Rightarrow> a);
            app_param = sha256 p (encode p key_app_id)
        in (case U2fClient_verify_app_id self key_app_id of
              Inl e \<Rightarrow> (Inl e, w)
            | Inr _ \<Rightarrow>
                (case websafe_decode p (keyHandle key) of
                   Inl e \<Rightarrow> (Inl e, w)
                 | Inr kh \<Rightarrow>
                     (case CTAP1_authenticate (u2f_ctap self) dummy_param app_param kh True w of
                        (Inr _, w1) \<Rightarrow> (Inl (ClientError DEVICE_INELIGIBLE), w1)
                      | (Inl e, w1) \<Rightarrow>
                          (case e of
                             ApduError code \<Rightarrow>
                               if code = USE_NOT_SATISFIED
                               then (Inl (ClientError DEVICE_INELIGIBLE), w1)
                               else register_check_keys p self app_id v keys w1
                           | _ \<Rightarrow> (Inl e, w1))))))"

text \<open>The second loop of \<open>register\<close> (lines 136-141): the challenge of the first request of
  the device's version; \<open>None\<close> is the \<open>else\<close> branch of the \<open>for\<close>.\<close>

fun find_challenge :: "string \<Rightarrow> register_request list \<Rightarrow> json option" where
  "find_challenge v [] = None"
| "find_challenge v (request # requests) =
     (if request_version request = v then Some (challenge request)
      else find_challenge v requests)"

definition U2fClient_register ::
  "prims \<Rightarrow> u2f_client \<Rightarrow> string \<Rightarrow> register_request list \<Rightarrow> registered_key list \<Rightarrow>
   rat option \<Rightarrow> world \<Rightarrow> json result option" where
  "U2fClient_register p self app_id register_requests registered_keys timeout w =
     (case U2fClient_verify_app_id self app_id of
        Inl e \<Rightarrow> Some (Inl e, w)
      | Inr _ \<Rightarrow>
     (case CTAP1_get_version (u2f_ctap self) w of
        (Inl e, w1) \<Rightarrow> Some (Inl e, w1)
      | (Inr v, w1) \<Rightarrow>
     (case register_check_keys p self app_id v registered_keys w1 of
        (Inl e, w2) \<Rightarrow> Some (Inl e, w2)
      | (Inr _, w2) \<Rightarrow>
     (case find_challenge v register_requests of
        None \<Rightarrow> Some (Inl (ClientError DEVICE_INELIGIBLE), w2)
      | Some c \<Rightarrow>
     (case ClientData_build p
             [(''typ'', JStr ''navigator.id.finishEnrollment''),
              (''challenge'', c),
              (''origin'', JStr (u2f_origin self))] of
        Inl e \<Rightarrow> Some (Inl e, w2)
      | Inr cd \<Rightarrow>
     (case call_polling (poll_delay self) timeout
             (CTAP1_register (u2f_ctap self) (hash p cd) (sha256 p (encode p app_id))) w2 of
        None \<Rightarrow> None
      | Some (Inl e, w3) \<Rightarrow> Some (Inl e, w3)
      | Some (Inr reg_data, w3) \<Rightarrow>
          Some (Inr (JObj [(''registrationData'', JStr (websafe_encode p (reg_bytes reg_data))),
                           (''clientData'', JStr (b64 p cd))]), w3)))))))"

text \<open>The loop of \<open>sign\<close> (lines 165-179): the result is the signature data together with
  the key the loop stopped at; the empty list is the \<open>else\<close> branch of the \<open>for\<close>.\<close>

fun sign_keys ::
  "prims \<Rightarrow> u2f_client \<Rightarrow> string \<Rightarrow> client_data \<Rightarrow> string \<Rightarrow> rat option \<Rightarrow>
   registered_key list \<Rightarrow> world \<Rightarrow> (signature_data \<times> registered_key) result option" where
  "sign_keys p self app_id cd v timeout [] w = Some (Inl (ClientError DEVICE_INELIGIBLE), w)"
| "sign_keys p self app_id cd v timeout (key # keys) w =
     (if version key = v then
        let key_app_id = (case appId key of None \<Rightarrow> app_id | Some a \<Rightarrow> a)
        in (case U2fClient_verify_app_id self key_app_id of
              Inl e \<Rightarrow> Some (Inl e, w)
            | Inr _ \<Rightarrow>
                (case websafe_decode p (keyHandle key) of
                   Inl e \<Rightarrow> Some (Inl e, w)
                 | Inr kh \<Rightarrow>
                     (case call_polling (poll_delay self) timeout
                             (CTAP1_authenticate (u2f_ctap self) (hash p cd)
                                (sha256 p (encode p key_app_id)) kh False) w of
                        None \<Rightarrow> None
                      | Some (Inr signature_data, w1) \<Rightarrow> Some (Inr (signature_data, key), w1)
                      | Some (Inl e, w1) \<Rightarrow>
                          (case e of
                             ApduError code \<Rightarrow> sign_keys p self app_id cd v timeout keys w1
                           | _ \<Rightarrow> Some (Inl e, w1)))))
      else sign_keys p self app_id cd v timeout keys w)"

definition U2fClient_sign ::
  "prims \<Rightarrow> u2f_client \<Rightarrow> string \<Rightarrow> json \<Rightarrow> registered_key list \<Rightarrow> rat option \<Rightarrow>
   world \<Rightarrow> json result option" where
  "U2fClient_sign p self app_id c registered_keys timeout w =
     (case ClientData_build p
             [(''typ'', JStr ''navigator.id.getAssertion''),
              (''challenge'', c),
              (''origin'', JStr (u2f_origin self))] of
        Inl e \<Rightarrow> Some (Inl e, w)
      | Inr cd \<Rightarrow>
     (case CTAP1_get_version (u2f_ctap self) w of
        (Inl e, w1) \<Rightarrow> Some (Inl e, w1)
      | (Inr v, w1) \<Rightarrow>
     (case sign_keys p self app_id cd v timeout registered_keys w1 of
        None \<Rightarrow> None
      | Some (Inl e, w2) \<Rightarrow> Some (Inl e, w2)
      | Some (Inr (signature_data, key), w2) \<Rightarrow>
          Some (Inr (JObj [(''clientData'', JStr (b64 p cd)),
                           (''signatureData'', JStr (websafe_encode p (sig_bytes signature_data))),
                           (''keyHandle'', JStr (keyHandle key))]), w2))))"

section \<open>\<open>Fido2Client\<close> (lines 194-377)\<close>

text \<open>\<open>CRED_ALGO\<close> (lines 188-191).\<close>

datatype CRED_ALGO = ES256 | RS256

fun CRED_ALGO_value :: "CRED_ALGO \<Rightarrow> int" where
  "CRED_ALGO_value ES256 = - 7"
| "CRED_ALGO_value RS256 = - 257"

text \<open>The transport \<open>__init__\<close> binds, with the pair of methods it stores in
  \<open>_do_make_credential\<close> and \<open>_do_get_assertion\<close>.\<close>

datatype transport = Ctap2 ctap2 | Ctap1 ctap1

record fido2_client =
  ctap1_poll_delay :: rat
  fido2_origin :: string
  fido2_verify :: verifier
  fido2_ctap :: transport

definition Fido2Client_init :: "device \<Rightarrow> string \<Rightarrow> verifier \<Rightarrow> fido2_client" where
  "Fido2Client_init dev origin verify =
     \<lparr>ctap1_poll_delay = 1 / 4, fido2_origin = origin, fido2_verify = verify,
      fido2_ctap =
        (case CTAP2 dev of
           Inr c \<Rightarrow> Ctap2 c
         | Inl e \<Rightarrow> Ctap1 (CTAP1 dev))\<rparr>"

definition Fido2Client_verify_rp_id :: "fido2_client \<Rightarrow> string \<Rightarrow> exn + unit" where
  "Fido2Client_verify_rp_id self rp =
     (case fido2_verify self rp (fido2_origin self) of
        Inr True \<Rightarrow> Inr ()
      | _ \<Rightarrow> Inl (ClientError BAD_REQUEST))"

subsection \<open>The CTAP2 path\<close>

text \<open>Python's truth value of the \<open>pin\<close> argument: \<open>None\<close> and the empty string are
  false.\<close>

fun truthy_pin :: "string option \<Rightarrow> bool" where
  "truthy_pin None = False"
| "truthy_pin (Some []) = False"
| "truthy_pin (Some (c # cs)) = True"

text \<open>Lines 239-248 and, word for word, lines 327-336: the PIN branch. The result is the
  pair \<open>(pin_auth, pin_protocol)\<close>.\<close>

definition pin_block ::
  "prims \<Rightarrow> ctap2 \<Rightarrow> client_data \<Rightarrow> string option \<Rightarrow> info \<Rightarrow> world \<Rightarrow>
   (bytes option \<times> nat option) result" where
  "pin_block p dev cd pin info w =
     (if truthy_pin pin then
        let pin_protocol = VERSION
        in if pin_protocol \<notin> set (pin_protocols info)
           then (Inl (ValueError ''Device does not support PIN protocol 1!''), w)
           else (case PinProtocolV1_get_pin_token dev (the pin) w of
                   (Inl e, w1) \<Rightarrow> (Inl e, w1)
                 | (Inr pin_token, w1) \<Rightarrow>
                     (Inr (Some (take 16 (hmac_sha256 p pin_token (hash p cd))),
                           Some pin_protocol), w1))
      else if map_of (options info) ''clientPin'' = Some True
           then (Inl (ValueError ''PIN required!''), w)
      else (Inr (None, None), w))"

text \<open>Lines 250-257 and 338-345: the options block.\<close>

definition options_block :: "bool \<Rightarrow> bool \<Rightarrow> (string \<times> bool) list option" where
  "options_block rk uv =
     (if \<not> (rk \<or> uv) then None
      else Some ((if rk then [(''rk'', True)] else []) @ (if uv then [(''uv'', True)] else [])))"

definition ctap2_make_credential ::
  "prims \<Rightarrow> ctap2 \<Rightarrow> client_data \<Rightarrow> rp_entity \<Rightarrow> json \<Rightarrow> int list \<Rightarrow>
   credential_descriptor list option \<Rightarrow> json option \<Rightarrow> bool \<Rightarrow> bool \<Rightarrow> string option \<Rightarrow>
   rat option \<Rightarrow> world \<Rightarrow> attestation_object result" where
  "ctap2_make_credential p dev cd rp user algos exclude_list extensions rk uv pin timeout w =
     (let key_params = map (\<lambda>a. \<lparr>kp_type = ''public-key'', alg = a\<rparr>) algos
      in (case CTAP2_get_info dev w of
            (Inl e, w1) \<Rightarrow> (Inl e, w1)
          | (Inr info, w1) \<Rightarrow>
              (case pin_block p dev cd pin info w1 of
                 (Inl e, w2) \<Rightarrow> (Inl e, w2)
               | (Inr (pin_auth, pin_protocol), w2) \<Rightarrow>
                   CTAP2_make_credential dev
                     \<lparr>mc_client_data_hash = hash p cd, mc_rp = rp, mc_user = user,
                      mc_key_params = key_params, mc_exclude_list = exclude_list,
                      mc_extensions = extensions, mc_options = options_block rk uv,
                      mc_pin_auth = pin_auth, mc_pin_protocol = pin_protocol,
                      mc_timeout = timeout\<rparr> w2)))"

text \<open>The loop of line 350-351: \<open>k\<close> further calls, each response appended.\<close>

fun get_next_assertions ::
  "ctap2 \<Rightarrow> nat \<Rightarrow> assertion_response list \<Rightarrow> world \<Rightarrow> assertion_response list result" where
  "get_next_assertions dev 0 assertions w = (Inr assertions, w)"
| "get_next_assertions dev (Suc k) assertions w =
     (case CTAP2_get_next_assertion dev w of
        (Inl e, w1) \<Rightarrow> (Inl e, w1)
      | (Inr a, w1) \<Rightarrow> get_next_assertions dev k (assertions @ [a]) w1)"

text \<open>Python's \<open>number_of_credentials or 1\<close>: \<open>None\<close> and \<open>0\<close> are false.\<close>

definition number_or_1 :: "int option \<Rightarrow> int" where
  "number_or_1 n = (case n of None \<Rightarrow> 1 | Some k \<Rightarrow> if k = 0 then 1 else k)"

definition ctap2_get_assertion ::
  "prims \<Rightarrow> ctap2 \<Rightarrow> client_data \<Rightarrow> string \<Rightarrow> credential_descriptor list option \<Rightarrow>
   json option \<Rightarrow> bool \<Rightarrow> bool \<Rightarrow> string option \<Rightarrow> rat option \<Rightarrow> world \<Rightarrow>
   assertion_response list result" where
  "ctap2_get_assertion p dev cd rp allow_list extensions rk uv pin timeout w =
     (case CTAP2_get_info dev w of
        (Inl e, w1) \<Rightarrow> (Inl e, w1)
      | (Inr info, w1) \<Rightarrow>
          (case pin_block p dev cd pin info w1 of
             (Inl e, w2) \<Rightarrow> (Inl e, w2)
           | (Inr (pin_auth, pin_protocol), w2) \<Rightarrow>
               (case CTAP2_get_assertion dev
                       \<lparr>ga_rp_id = rp, ga_client_data_hash = hash p cd,
                        ga_allow_list = allow_list, ga_extensions = extensions,
                        ga_options = options_block rk uv, ga_pin_auth = pin_auth,
                        ga_pin_protocol = pin_protocol, ga_timeout = timeout\<rparr> w2 of
                  (Inl e, w3) \<Rightarrow> (Inl e, w3)
                | (Inr first, w3) \<Rightarrow>
                    get_next_assertions dev
                      (nat (number_or_1 (number_of_credentials first) - 1)) [first] w3)))"

subsection \<open>The CTAP1 path\<close>

text \<open>Python's slice \<open>xs[i:j]\<close> for \<open>0 \<le> i \<le> j\<close>.\<close>

definition slice :: "nat \<Rightarrow> nat \<Rightarrow> 'a list \<Rightarrow> 'a list" where
  "slice i j xs = take (j - i) (drop i xs)"

definition AttestedCredentialData_create ::
  "bytes \<Rightarrow> bytes \<Rightarrow> cose_key \<Rightarrow> attested_credential_data" where
  "AttestedCredentialData_create a cid k =
     \<lparr>aaguid = a, credential_id = cid, cose_public_key = k\<rparr>"

definition AuthenticatorData_create ::
  "bytes \<Rightarrow> 8 word \<Rightarrow> 32 word \<Rightarrow> attested_credential_data option \<Rightarrow> authenticator_data" where
  "AuthenticatorData_create h f n c =
     \<lparr>rp_id_hash = h, flags = f, sign_count = n, credential_data = c\<rparr>"

definition AttestationObject_create ::
  "string \<Rightarrow> authenticator_data \<Rightarrow> att_statement \<Rightarrow> attestation_object" where
  "AttestationObject_create f a s = \<lparr>fmt = f, auth_data = a, att_stmt = s\<rparr>"

definition AssertionResponse_create ::
  "credential_descriptor \<Rightarrow> authenticator_data \<Rightarrow> bytes \<Rightarrow> assertion_response" where
  "AssertionResponse_create c a s =
     \<lparr>credential = Some c, assertion_auth_data = a, assertion_signature = s,
      number_of_credentials = None\<rparr>"

text \<open>The loop over the exclude list (lines 272-279).\<close>

fun check_exclude_list ::
  "ctap1 \<Rightarrow> bytes \<Rightarrow> credential_descriptor list \<Rightarrow> world \<Rightarrow> unit result" where
  "check_exclude_list dev app_param [] w = (Inr (), w)"
| "check_exclude_list dev app_param (cred # creds) w =
     (let kh = cred_id cred
      in (case CTAP1_authenticate dev dummy_param app_param kh True w of
            (Inr _, w1) \<Rightarrow> (Inl (CtapError CREDENTIAL_EXCLUDED), w1)
          | (Inl e, w1) \<Rightarrow>
              (case e of
                 ApduError code \<Rightarrow>
                   if code = USE_NOT_SATISFIED
                   then (Inl (CtapError CREDENTIAL_EXCLUDED), w1)
                   else check_exclude_list dev app_param creds w1
               | _ \<Rightarrow> (Inl e, w1))))"

text \<open>Lines 285-307: the attestation object made from the registration response.\<close>

definition u2f_attestation :: "bytes \<Rightarrow> registration_data \<Rightarrow> attestation_object" where
  "u2f_attestation app_param reg_resp =
     AttestationObject_create ''fido-u2f''
       (AuthenticatorData_create app_param 0x41 0
          (Some (AttestedCredentialData_create (replicate 16 0) (key_handle reg_resp)
             [(1, CInt 2),
              (3, CInt (- 7)),
              (- 1, CInt 1),
              (- 2, CBytes (slice 1 (1 + 32) (public_key reg_resp))),
              (- 3, CBytes (slice 33 (33 + 32) (public_key reg_resp)))])))
       \<lparr>x5c = [certificate reg_resp], sig = signature reg_resp\<rparr>"

definition ctap1_make_credential ::
  "prims \<Rightarrow> fido2_client \<Rightarrow> ctap1 \<Rightarrow> client_data \<Rightarrow> rp_entity \<Rightarrow> json \<Rightarrow> int list \<Rightarrow>
   credential_descriptor list option \<Rightarrow> json option \<Rightarrow> bool \<Rightarrow> bool \<Rightarrow> string option \<Rightarrow>
   rat option \<Rightarrow> world \<Rightarrow> attestation_object result option" where
  "ctap1_make_credential p self dev cd rp user algos exclude_list extensions rk uv pin timeout w =
     (if rk \<or> uv then Some (Inl (CtapError UNSUPPORTED_OPTION), w)
      else
        let app_param = sha256 p (encode p (rp_id rp))
        in (case check_exclude_list dev app_param
                   (case exclude_list of None \<Rightarrow> [] | Some creds \<Rightarrow> creds) w of
              (Inl e, w1) \<Rightarrow> Some (Inl e, w1)
            | (Inr _, w1) \<Rightarrow>
                (case call_polling (ctap1_poll_delay self) timeout
                        (CTAP1_register dev (hash p cd) app_param) w1 of
                   None \<Rightarrow> None
                 | Some (Inl e, w2) \<Rightarrow> Some (Inl e, w2)
                 | Some (Inr reg_resp, w2) \<Rightarrow>
                     Some (Inr (u2f_attestation app_param reg_resp), w2))))"

text \<open>The loop over the allow list (lines 361-377); the empty list is the \<open>raise\<close> after
  the loop.\<close>

fun assert_creds ::
  "fido2_client \<Rightarrow> ctap1 \<Rightarrow> bytes \<Rightarrow> bytes \<Rightarrow> rat option \<Rightarrow> credential_descriptor list \<Rightarrow>
   world \<Rightarrow> assertion_response list result option" where
  "assert_creds self dev client_param app_param timeout [] w =
     Some (Inl (CtapError NO_CREDENTIALS), w)"
| "assert_creds self dev client_param app_param timeout (cred # creds) w =
     (case call_polling (ctap1_poll_delay self) timeout
             (CTAP1_authenticate dev client_param app_param (cred_id cred) False) w of
        None \<Rightarrow> None
      | Some (Inr auth_resp, w1) \<Rightarrow>
          Some (Inr [AssertionResponse_create cred
                       (AuthenticatorData_create app_param
                          (user_presence auth_resp AND 0x01) (counter auth_resp) None)
                       (auth_signature auth_resp)], w1)
      | Some (Inl e, w1) \<Rightarrow>
          (case e of
             ApduError code \<Rightarrow> assert_creds self dev client_param app_param timeout creds w1
           | _ \<Rightarrow> Some (Inl e, w1)))"

definition ctap1_get_assertion ::
  "prims \<Rightarrow> fido2_client \<Rightarrow> ctap1 \<Rightarrow> client_data \<Rightarrow> string \<Rightarrow>
   credential_descriptor list option \<Rightarrow> json option \<Rightarrow> bool \<Rightarrow> bool \<Rightarrow> string option \<Rightarrow>
   rat option \<Rightarrow> world \<Rightarrow> assertion_response list result option" where
  "ctap1_get_assertion p self dev cd rp allow_list extensions rk uv pin timeout w =
     (if rk \<or> uv \<or> allow_list = None \<or> allow_list = Some []
      then Some (Inl (CtapError UNSUPPORTED_OPTION), w)
      else
        let app_param = sha256 p (encode p rp);
            client_param = hash p cd
        in assert_creds self dev client_param app_param timeout (the allow_list) w)"

subsection \<open>The two public operations\<close>

definition Fido2Client_make_credential ::
  "prims \<Rightarrow> fido2_client \<Rightarrow> rp_entity \<Rightarrow> json \<Rightarrow> json \<Rightarrow> int list \<Rightarrow>
   credential_descriptor list option \<Rightarrow> json option \<Rightarrow> bool \<Rightarrow> bool \<Rightarrow> string option \<Rightarrow>
   rat option \<Rightarrow> world \<Rightarrow> (attestation_object \<times> client_data) result option" where
  "Fido2Client_make_credential p self rp user c algos exclude_list extensions rk uv pin timeout w =
     (case Fido2Client_verify_rp_id self (rp_id rp) of
        Inl e \<Rightarrow> Some (Inl e, w)
      | Inr _ \<Rightarrow>
     (case ClientData_build p
             [(''type'', JStr ''webauthn.create''),
              (''clientExtensions'', JObj []),
              (''challenge'', c),
              (''origin'', JStr (fido2_origin self))] of
        Inl e \<Rightarrow> Some (Inl e, w)
      | Inr cd \<Rightarrow>
     (case (case fido2_ctap self of
              Ctap2 dev \<Rightarrow>
                Some (ctap2_make_credential p dev cd rp user algos exclude_list extensions
                        rk uv pin timeout w)
            | Ctap1 dev \<Rightarrow>
                ctap1_make_credential p self dev cd rp user algos exclude_list extensions
                  rk uv pin timeout w) of
        None \<Rightarrow> None
      | Some (Inl e, w1) \<Rightarrow> Some (Inl e, w1)
      | Some (Inr attestation, w1) \<Rightarrow> Some (Inr (attestation, cd), w1))))"

definition Fido2Client_get_assertion ::
  "prims \<Rightarrow> fido2_client \<Rightarrow> string \<Rightarrow> json \<Rightarrow> credential_descriptor list option \<Rightarrow>
   json option \<Rightarrow> bool \<Rightarrow> bool \<Rightarrow> string option \<Rightarrow> rat option \<Rightarrow> world \<Rightarrow>
   (assertion_response list \<times> client_data) result option" where
  "Fido2Client_get_assertion p self rp c allow_list extensions rk uv pin timeout w =
     (case Fido2Client_verify_rp_id self rp of
        Inl e \<Rightarrow> Some (Inl e, w)
      | Inr _ \<Rightarrow>
     (case ClientData_build p
             [(''type'', JStr ''webauthn.get''),
              (''clientExtensions'', JObj []),
              (''challenge'', c),
              (''origin'', JStr (fido2_origin self))] of
        Inl e \<Rightarrow> Some (Inl e, w)
      | Inr cd \<Rightarrow>
     (case (case fido2_ctap self of
              Ctap2 dev \<Rightarrow>
                Some (ctap2_get_assertion p dev cd rp allow_list extensions rk uv pin timeout w)
            | Ctap1 dev \<Rightarrow>
                ctap1_get_assertion p self dev cd rp allow_list extensions rk uv pin timeout w) of
        None \<Rightarrow> None
      | Some (Inl e, w1) \<Rightarrow> Some (Inl e, w1)
      | Some (Inr assertions, w1) \<Rightarrow> Some (Inr (assertions, cd), w1))))"

section \<open>Reading the trace\<close>

text \<open>The challenge parameter an event carried to the authenticator, with \<open>check_only\<close>
  (a \<open>register\<close> command has no such flag: \<open>False\<close>).\<close>

fun sent_challenge :: "event \<Rightarrow> (bytes \<times> bool) option" where
  "sent_challenge (Register c a, r) = Some (c, False)"
| "sent_challenge (Authenticate c a kh check_only, r) = Some (c, check_only)"
| "sent_challenge (other, r) = None"

fun is_register :: "event \<Rightarrow> bool" where
  "is_register (Register c a, r) = True"
| "is_register (other, r) = False"

fun is_authenticate :: "event \<Rightarrow> bool" where
  "is_authenticate (Authenticate c a kh check_only, r) = True"
| "is_authenticate (other, r) = False"

text \<open>What the source does with challenge parameters: a check-only probe carries
  \<open>dummy_param\<close>, every other command the hash \<open>h\<close> of the ceremony's client data
  (\<open>None\<close> while no client data exists).\<close>

definition challenges_by_design :: "bytes option \<Rightarrow> event list \<Rightarrow> bool" where
  "challenges_by_design h evs =
     list_all (\<lambda>ev. case sent_challenge ev of
                       None \<Rightarrow> True
                     | Some (c, check_only) \<Rightarrow>
                         if check_only then c = dummy_param else h = Some c) evs"

text \<open>The client data \<open>U2fClient.register\<close> builds (lines 143-147) once the device said its
  version is \<open>v\<close>, if it gets that far.\<close>

definition register_client_data ::
  "prims \<Rightarrow> u2f_client \<Rightarrow> string \<Rightarrow> register_request list \<Rightarrow> client_data option" where
  "register_client_data p self v register_requests =
     (case find_challenge v register_requests of
        None \<Rightarrow> None
      | Some c \<Rightarrow>
          (case ClientData_build p
                  [(''typ'', JStr ''navigator.id.finishEnrollment''),
                   (''challenge'', c),
                   (''origin'', JStr (u2f_origin self))] of
             Inl e \<Rightarrow> None
           | Inr cd \<Rightarrow> Some cd))"

text \<open>The client data \<open>U2fClient.sign\<close> builds first (lines 157-161), if the build
  succeeds.\<close>

definition sign_client_data :: "prims \<Rightarrow> u2f_client \<Rightarrow> json \<Rightarrow> client_data option" where
  "sign_client_data p self c =
     (case ClientData_build p
             [(''typ'', JStr ''navigator.id.getAssertion''),
              (''challenge'', c),
              (''origin'', JStr (u2f_origin self))] of
        Inl e \<Rightarrow> None
      | Inr cd \<Rightarrow> Some cd)"

text \<open>The check-only probes of the first loop of \<open>U2fClient.register\<close> (lines 121-134), as
  they show in the trace. \<open>key_app_id\<close> is \<open>key.get('appId', app_id)\<close>. An event is the probe
  for a key when it is a check-only \<open>authenticate\<close> with 32 zero bytes as challenge
  parameter, the hash of the key's application id and the decoded key handle. The loop
  stops with \<open>DEVICE_INELIGIBLE\<close> at an answer that \<open>probe_rejects\<close> (a signature or
  \<open>USE_NOT_SATISFIED\<close>) and goes on after one that is \<open>probe_ignored\<close> (any other
  \<open>ApduError\<close>).\<close>

definition key_app_id :: "string \<Rightarrow> registered_key \<Rightarrow> string" where
  "key_app_id app_id key = (case appId key of None \<Rightarrow> app_id | Some a \<Rightarrow> a)"

definition probe_of :: "prims \<Rightarrow> string \<Rightarrow> event \<Rightarrow> registered_key \<Rightarrow> bool" where
  "probe_of p app_id ev key =
     (case websafe_decode p (keyHandle key) of
        Inl e \<Rightarrow> False
      | Inr kh \<Rightarrow>
          fst ev = Authenticate (replicate 32 0) (sha256 p (encode p (key_app_id app_id key)))
                     kh True)"

definition probe_rejects :: "exn + resp \<Rightarrow> bool" where
  "probe_rejects r = (case r of Inr v \<Rightarrow> True | Inl e \<Rightarrow> e = ApduError USE_NOT_SATISFIED)"

definition probe_ignored :: "exn + resp \<Rightarrow> bool" where
  "probe_ignored r =
     (case r of
        Inl (ApduError code) \<Rightarrow> code \<noteq> USE_NOT_SATISFIED
      | _ \<Rightarrow> False)"

section \<open>Concrete collaborators and authenticators for the worked examples\<close>

text \<open>Stand-ins for the codecs and digests, small enough to evaluate. The JSON codec is
  the real one on the few texts the examples use.\<close>

definition ex_sha256 :: "bytes \<Rightarrow> bytes" where
  "ex_sha256 b = of_nat (length b) # sum_list b # replicate 30 0xAA"

fun ex_dumps_value :: "json \<Rightarrow> string" where
  "ex_dumps_value (JStr s) = [CHR 0x22] @ s @ [CHR 0x22]"
| "ex_dumps_value (JObj []) = ''{}''"
| "ex_dumps_value other = ''null''"

fun ex_dumps_members :: "(string \<times> json) list \<Rightarrow> string" where
  "ex_dumps_members [] = []"
| "ex_dumps_members [(k, v)] = [CHR 0x22] @ k @ [CHR 0x22] @ '': '' @ ex_dumps_value v"
| "ex_dumps_members ((k, v) # kvs) =
     [CHR 0x22] @ k @ [CHR 0x22] @ '': '' @ ex_dumps_value v @ '', '' @ ex_dumps_members kvs"

fun ex_json_dumps :: "json \<Rightarrow> string" where
  "ex_json_dumps (JObj kvs) = ''{'' @ ex_dumps_members kvs @ ''}''"
| "ex_json_dumps other = ex_dumps_value other"

definition ex_enrollment :: json where
  "ex_enrollment =
     JObj [(''typ'', JStr ''navigator.id.finishEnrollment''),
           (''challenge'', JStr ''abc''),
           (''origin'', JStr ''https://example.com'')]"

definition ex_create :: json where
  "ex_create =
     JObj [(''type'', JStr ''webauthn.create''),
           (''clientExtensions'', JObj []),
           (''challenge'', JStr ''abc''),
           (''origin'', JStr ''https://example.com'')]"

definition ex_sign :: json where
  "ex_sign =
     JObj [(''typ'', JStr ''navigator.id.getAssertion''),
           (''challenge'', JStr ''abc''),
           (''origin'', JStr ''https://example.com'')]"

definition ex_json_loads :: "string \<Rightarrow> exn + json" where
  "ex_json_loads text =
     (if text = ''{}'' then Inr (JObj [])
      else if text = ex_json_dumps ex_enrollment then Inr ex_enrollment
      else if text = ex_json_dumps ex_create then Inr ex_create
      else if text = ex_json_dumps ex_sign then Inr ex_sign
      else Inl (ValueError ''no JSON object could be decoded''))"

definition ex_prims :: prims where
  "ex_prims =
     \<lparr>sha256 = ex_sha256,
      hmac_sha256 = (\<lambda>key msg. ex_sha256 (key @ msg)),
      websafe_encode = map (\<lambda>x. char_of (unat x)),
      websafe_decode = (\<lambda>s. Inr (map (\<lambda>c. of_nat (of_char c)) s)),
      json_dumps = ex_json_dumps,
      json_loads = ex_json_loads,
      encode = map (\<lambda>c. of_nat (of_char c)),
      decode = (\<lambda>b. Inr (map (\<lambda>x. char_of (unat x)) b)),
      verify_app_id = (\<lambda>app_id origin. Inr (app_id = origin)),
      verify_rp_id = (\<lambda>rp origin. Inr (origin = ''https://'' @ rp))\<rparr>"

definition ex_reg :: registration_data where
  "ex_reg =
     \<lparr>reg_bytes = [5, 4] @ replicate 32 1 @ replicate 32 2 @ [2, 7, 7, 9, 8],
      public_key = 4 # replicate 32 1 @ replicate 32 2,
      key_handle = [7, 7],
      certificate = [9],
      signature = [8]\<rparr>"

definition ex_sig :: signature_data where
  "ex_sig = \<lparr>sig_bytes = [1, 0, 0, 0, 3, 6], user_presence = 1, counter = 3,
             auth_signature = [6]\<rparr>"

text \<open>A CTAP1 authenticator holding the key handle \<open>[7, 7]\<close>. The user touches it after
  the first poll: the first non-check-only command is answered \<open>USE_NOT_SATISFIED\<close>, the
  later ones succeed. A check-only probe is answered \<open>USE_NOT_SATISFIED\<close> for the key
  it holds and \<open>WRONG_DATA\<close> (0x6A80) for any other.\<close>

definition touched :: "world \<Rightarrow> bool" where
  "touched w = list_ex (\<lambda>ev. case sent_challenge ev of Some (c, False) \<Rightarrow> True | _ \<Rightarrow> False) (trace w)"

definition ex_ctap1 :: ctap1 where
  "ex_ctap1 =
     \<lparr>dev_get_version = (\<lambda>w. (Inr ''U2F_V2'', 0)),
      dev_register = (\<lambda>w c a.
        if touched w then (Inr ex_reg, 0) else (Inl (ApduError USE_NOT_SATISFIED), 0)),
      dev_authenticate = (\<lambda>w c a kh check_only.
        if kh \<noteq> [7, 7] then (Inl (ApduError 0x6A80), 0)
        else if check_only \<or> \<not> touched w then (Inl (ApduError USE_NOT_SATISFIED), 0)
        else (Inr ex_sig, 0))\<rparr>"

definition ex_assertion :: "int option \<Rightarrow> assertion_response" where
  "ex_assertion n =
     \<lparr>credential = None,
      assertion_auth_data =
        \<lparr>rp_id_hash = replicate 32 0xAA, flags = 1, sign_count = 3, credential_data = None\<rparr>,
      assertion_signature = [6],
      number_of_credentials = n\<rparr>"

text \<open>A CTAP2 authenticator with a PIN set and three credentials for every relying
  party, and the same one without PIN support.\<close>

definition ex_ctap2 :: ctap2 where
  "ex_ctap2 =
     \<lparr>dev_get_info = (\<lambda>w. (Inr \<lparr>pin_protocols = [1], options = [(''clientPin'', True)]\<rparr>, 0)),
      dev_get_pin_token = (\<lambda>w pin.
        if pin = ''1234'' then (Inr (replicate 16 5), 0) else (Inl (CtapError (CTAP_CODE 0x31)), 0)),
      dev_make_credential = (\<lambda>w args. (Inr (u2f_attestation (replicate 32 0xAA) ex_reg), 0)),
      dev_get_assertion = (\<lambda>w args. (Inr (ex_assertion (Some 3)), 0)),
      dev_get_next_assertion = (\<lambda>w. (Inr (ex_assertion None), 0))\<rparr>"

definition ex_ctap2_no_pin :: ctap2 where
  "ex_ctap2_no_pin =
     ex_ctap2\<lparr>dev_get_info := (\<lambda>w. (Inr \<lparr>pin_protocols = [], options = []\<rparr>, 0))\<rparr>"

definition ex_device :: device where
  "ex_device = \<lparr>u2f = ex_ctap1, cbor = None\<rparr>"

definition ex_world :: world where
  "ex_world = \<lparr>now = 0, trace = []\<rparr>"

definition ex_client_data :: client_data where
  "ex_client_data =
     \<lparr>cd_bytes = encode ex_prims (ex_json_dumps ex_create), cd_data = ex_create,
      cd_origin = JStr ''https://example.com''\<rparr>"

definition ex_rp :: rp_entity where
  "ex_rp = \<lparr>rp_id = ''example.com'', rp_name = ''Example''\<rparr>"

definition ex_fido2_client :: fido2_client where
  "ex_fido2_client = Fido2Client_init ex_device ''https://example.com'' (verify_rp_id ex_prims)"

definition ex_u2f_client :: u2f_client where
  "ex_u2f_client =
     U2fClient_init ex_prims ex_device ''https://example.com'' (\<lambda>app_id origin. Inr False)"

definition ex_key :: registered_key where
  "ex_key = \<lparr>version = ''U2F_V2'', keyHandle = [CHR 0x07, CHR 0x07], appId = None\<rparr>"

definition ex_other_key :: registered_key where
  "ex_other_key = \<lparr>version = ''U2F_V2'', keyHandle = [CHR 0x01], appId = None\<rparr>"

definition ex_request :: register_request where
  "ex_request = \<lparr>request_version = ''U2F_V2'', challenge = JStr ''abc''\<rparr>"

text \<open>A CTAP1 authenticator nobody ever touches: every \<open>register\<close> and \<open>authenticate\<close>
  is answered \<open>USE_NOT_SATISFIED\<close>.\<close>

definition ex_busy :: ctap1 where
  "ex_busy =
     \<lparr>dev_get_version = (\<lambda>w. (Inr ''U2F_V2'', 0)),
      dev_register = (\<lambda>w c a. (Inl (ApduError USE_NOT_SATISFIED), 0)),
      dev_authenticate = (\<lambda>w c a kh check_only. (Inl (ApduError USE_NOT_SATISFIED), 0))\<rparr>"

section \<open>The polling contract in the words of the spec\<close>

text \<open>
  Section 4.2 of the spec: invoke \<open>op\<close>; on \<open>USE_NOT_SATISFIED\<close> sleep for \<open>delay\<close> or
  until the budget is exhausted, whichever first; then retry. \<open>retries d D op ws\<close> says
  that \<open>ws\<close> are the worlds of such a chain of attempts under the deadline \<open>D\<close>: each
  world but the last is one where the budget was not used up and \<open>op\<close> failed with
  \<open>USE_NOT_SATISFIED\<close>, and the next one is where the wait after that failure ended.
\<close>

fun retries :: "rat \<Rightarrow> rat \<Rightarrow> (world \<Rightarrow> 'a result) \<Rightarrow> world list \<Rightarrow> bool" where
  "retries d D op [] = False"
| "retries d D op [w] = True"
| "retries d D op (w # w' # ws) =
     (\<not> is_set D w \<and> fst (op w) = Inl (ApduError USE_NOT_SATISFIED)
      \<and> w' = wait D d (snd (op w)) \<and> retries d D op (w' # ws))"

section \<open>Properties of the polling driver\<close>



lemma poll_loop_expired:
  "is_set D w \<Longrightarrow> poll_loop d D f w = Some (Inl (ClientError TIMEOUT), w)"
  by (subst poll_loop.simps) simp

lemma poll_loop_success:
  "\<not> is_set D w \<Longrightarrow> f w = (Inr v, w1) \<Longrightarrow> poll_loop d D f w = Some (Inr v, w1)"
  by (subst poll_loop.simps) simp

lemma poll_loop_raise:
  "\<not> is_set D w \<Longrightarrow> f w = (Inl e, w1) \<Longrightarrow> e \<noteq> ApduError USE_NOT_SATISFIED \<Longrightarrow>
   poll_loop d D f w = Some (Inl e, w1)"
  by (subst poll_loop.simps) (simp split: exn.splits)

lemma poll_loop_retry:
  "\<not> is_set D w \<Longrightarrow> f w = (Inl (ApduError USE_NOT_SATISFIED), w1) \<Longrightarrow>
   poll_loop d D f w = poll_loop d D f (wait D d w1)"
  by (subst poll_loop.simps) simp

lemma trace_wait: "trace (wait D d w) = trace w"
  by (simp add: wait_def)

lemma now_wait_le: "now (wait D d w) \<le> now w + max 0 d"
  by (simp add: wait_def is_set_def min_def max_def)

lemma now_wait_ge: "now w \<le> now (wait D d w)"
  by (simp add: wait_def is_set_def min_def max_def)

lemma now_wait_deadline: "now w \<le> D \<Longrightarrow> now (wait D d w) \<le> D"
  by (simp add: wait_def is_set_def min_def max_def)

lemma now_wait_progress: "0 < d \<Longrightarrow> min (now w + d) D \<le> now (wait D d w)"
  by (simp add: wait_def is_set_def min_def max_def)

lemma poll_loop_returns_aux:
  assumes d: "0 < d" and mono: "\<And>w. now w \<le> now (snd (f w))"
  shows "D - now w \<le> of_nat n * d \<Longrightarrow> \<exists>r. poll_loop d D f w = Some r"
proof (induction n arbitrary: w)
  case 0
  then have "is_set D w" by (simp add: is_set_def)
  then show ?case by (simp add: poll_loop_expired)
next
  case (Suc n)
  show ?case
  proof (cases "is_set D w")
    case True
    then show ?thesis by (simp add: poll_loop_expired)
  next
    case False
    obtain r w1 where fw: "f w = (r, w1)" by (cases "f w")
    show ?thesis
    proof (cases "r = Inl (ApduError USE_NOT_SATISFIED)")
      case True
      have "now w \<le> now w1" using mono [of w] fw by simp
      moreover have "min (now w1 + d) D \<le> now (wait D d w1)" using d by (rule now_wait_progress)
      moreover have "0 \<le> of_nat n * d" using d by simp
      ultimately have "D - now (wait D d w1) \<le> of_nat n * d"
        using Suc.prems by (simp add: min_def algebra_simps split: if_splits)
      then have "\<exists>r. poll_loop d D f (wait D d w1) = Some r" by (rule Suc.IH)
      then show ?thesis using False fw True by (simp add: poll_loop_retry)
    next
      case F: False
      show ?thesis
      proof (cases r)
        case (Inl e)
        with F False fw show ?thesis by (simp add: poll_loop_raise)
      next
        case (Inr v)
        with False fw show ?thesis by (simp add: poll_loop_success)
      qed
    qed
  qed
qed

lemma poll_loop_returns:
  assumes d: "0 < d" and mono: "\<And>w. now w \<le> now (snd (f w))"
  shows "\<exists>r. poll_loop d D f w = Some r"
proof -
  obtain n :: nat where "(D - now w) / d \<le> of_nat n"
    using real_arch_simple by blast
  then have "D - now w \<le> of_nat n * d" using d by (simp add: pos_divide_le_eq)
  then show ?thesis by (rule poll_loop_returns_aux [OF d mono])
qed


lemma poll_loop_not_surfaced:
  assumes "poll_loop d D f w = Some res"
  shows "fst res \<noteq> Inl (ApduError USE_NOT_SATISFIED)"
proof (rule poll_loop.raw_induct
    [where P = "\<lambda>d D f w res. fst res \<noteq> Inl (ApduError USE_NOT_SATISFIED)", OF _ assms])
  fix g :: "rat \<Rightarrow> rat \<Rightarrow> (world \<Rightarrow> 'a result) \<Rightarrow> world \<Rightarrow> 'a result option"
  fix d D f w res
  assume IH: "\<And>d D f w y. g d D f w = Some y \<Longrightarrow> fst y \<noteq> Inl (ApduError USE_NOT_SATISFIED)"
  assume step:
    "(if is_set D w then Some (Inl (ClientError TIMEOUT), w)
      else case f w of
             (Inl e, w1) \<Rightarrow>
               (case e of
                  ApduError code \<Rightarrow>
                    if code = USE_NOT_SATISFIED then g d D f (wait D d w1)
                    else Some (Inl e, w1)
                | _ \<Rightarrow> Some (Inl e, w1))
           | (Inr v, w1) \<Rightarrow> Some (Inr v, w1)) = Some res"
  obtain r w1 where fw: "f w = (r, w1)" by (cases "f w")
  show "fst res \<noteq> Inl (ApduError USE_NOT_SATISFIED)"
  proof (cases "is_set D w")
    case True
    with step show ?thesis by auto
  next
    case False
    show ?thesis
    proof (cases r)
      case (Inr v)
      with step False fw show ?thesis by auto
    next
      case (Inl e)
      show ?thesis
      proof (cases "e = ApduError USE_NOT_SATISFIED")
        case True
        with step False fw Inl have "g d D f (wait D d w1) = Some res" by simp
        then show ?thesis by (rule IH)
      next
        case other: False
        with step False fw Inl have "res = (Inl e, w1)"
          by (cases e) (auto split: if_splits)
        with other show ?thesis by simp
      qed
    qed
  qed
qed


subsection \<open>The authenticator of the examples under the polling driver\<close>

lemma ex_register_untouched:
  "\<not> touched w \<Longrightarrow>
   CTAP1_register ex_ctap1 c a w =
     (Inl (ApduError USE_NOT_SATISFIED),
      \<lparr>now = now w, trace = trace w @ [(Register c a, Inl (ApduError USE_NOT_SATISFIED))]\<rparr>)"
  by (simp add: CTAP1_register_def ex_ctap1_def advance_def)

lemma ex_register_touched:
  "touched w \<Longrightarrow>
   CTAP1_register ex_ctap1 c a w =
     (Inr ex_reg, \<lparr>now = now w, trace = trace w @ [(Register c a, Inr (RReg ex_reg))]\<rparr>)"
  by (simp add: CTAP1_register_def ex_ctap1_def advance_def)

lemma touched_after_register:
  "touched \<lparr>now = t, trace = evs @ [(Register c a, r)]\<rparr>"
  by (simp add: touched_def)

lemma ex_poll_register:
  assumes "\<not> touched w" and "now w + 1 / 4 < D"
  shows "poll_loop (1 / 4) D (CTAP1_register ex_ctap1 c a) w =
           Some (Inr ex_reg,
                 \<lparr>now = now w + 1 / 4,
                  trace = trace w @ [(Register c a, Inl (ApduError USE_NOT_SATISFIED)),
                                     (Register c a, Inr (RReg ex_reg))]\<rparr>)"
proof -
  let ?f = "CTAP1_register ex_ctap1 c a"
  let ?w1 = "\<lparr>now = now w,
              trace = trace w @ [(Register c a, Inl (ApduError USE_NOT_SATISFIED))]\<rparr>"
  let ?w2 = "\<lparr>now = now w + 1 / 4,
              trace = trace w @ [(Register c a, Inl (ApduError USE_NOT_SATISFIED))]\<rparr>"
  have s0: "\<not> is_set D w" using assms(2) by (simp add: is_set_def)
  have wt: "wait D (1 / 4) ?w1 = ?w2" using assms(2) by (simp add: wait_def is_set_def)
  have s2: "\<not> is_set D ?w2" using assms(2) by (simp add: is_set_def)
  have t2: "touched ?w2" by (rule touched_after_register)
  have "poll_loop (1 / 4) D ?f w = poll_loop (1 / 4) D ?f ?w2"
    using poll_loop_retry [where f = ?f and w = w, OF s0 ex_register_untouched [OF assms(1), of c a]] wt by simp
  also have "\<dots> = Some (Inr ex_reg,
                 \<lparr>now = now w + 1 / 4,
                  trace = trace w @ [(Register c a, Inl (ApduError USE_NOT_SATISFIED)),
                                     (Register c a, Inr (RReg ex_reg))]\<rparr>)"
    using poll_loop_success [where f = ?f and w = ?w2, OF s2 ex_register_touched [OF t2, of c a]] by simp
  finally show ?thesis .
qed

lemma ex_world_untouched: "\<not> touched ex_world"
  by (simp add: touched_def ex_world_def)

subsection \<open>Every run of the polling loop\<close>

lemma poll_loop_run_aux:
  fixes f :: "world \<Rightarrow> 'a result"
  assumes eps: "0 < \<epsilon>"
    and prog: "\<And>w0. now w0 + \<epsilon> \<le> now (snd (f w0)) + max 0 d"
  shows "D - now w \<le> of_nat n * \<epsilon> \<Longrightarrow>
         \<exists>ws r w'. poll_loop d D f w = Some (r, w') \<and> retries d D f (w # ws)
           \<and> (if is_set D (last (w # ws))
               then (r, w') = (Inl (ClientError TIMEOUT), last (w # ws))
               else (r, w') = f (last (w # ws)) \<and> r \<noteq> Inl (ApduError USE_NOT_SATISFIED))"
proof (induction n arbitrary: w)
  case 0
  then have exp: "is_set D w" by (simp add: is_set_def)
  show ?case
    apply (rule exI [where x = "[]"])
    apply (rule exI [where x = "Inl (ClientError TIMEOUT)"])
    apply (rule exI [where x = w])
    using exp by (simp add: poll_loop_expired)
next
  case (Suc n)
  show ?case
  proof (cases "is_set D w")
    case True
    show ?thesis
      apply (rule exI [where x = "[]"])
      apply (rule exI [where x = "Inl (ClientError TIMEOUT)"])
      apply (rule exI [where x = w])
      using True by (simp add: poll_loop_expired)
  next
    case False
    obtain r1 w1 where fw: "f w = (r1, w1)" by (cases "f w")
    show ?thesis
    proof (cases "r1 = Inl (ApduError USE_NOT_SATISFIED)")
      case other: False
      have res: "poll_loop d D f w = Some (r1, w1)"
      proof (cases r1)
        case (Inl e)
        with other False fw show ?thesis by (simp add: poll_loop_raise)
      next
        case (Inr v)
        with False fw show ?thesis by (simp add: poll_loop_success)
      qed
      show ?thesis
        apply (rule exI [where x = "[]"])
        apply (rule exI [where x = r1])
        apply (rule exI [where x = w1])
        using res False fw other by simp
    next
      case True
      let ?w2 = "wait D d w1"
      have loop: "poll_loop d D f w = poll_loop d D f ?w2"
        using False fw True by (simp add: poll_loop_retry)
      have "now w + \<epsilon> \<le> now w1 + max 0 d" using prog [of w] fw by simp
      moreover have "0 \<le> of_nat n * \<epsilon>" using eps by simp
      ultimately have "D - now ?w2 \<le> of_nat n * \<epsilon>"
        using Suc.prems by (simp add: wait_def is_set_def min_def algebra_simps)
      from Suc.IH [OF this] obtain ws r w'
        where ih: "poll_loop d D f ?w2 = Some (r, w')" "retries d D f (?w2 # ws)"
          "if is_set D (last (?w2 # ws))
           then (r, w') = (Inl (ClientError TIMEOUT), last (?w2 # ws))
           else (r, w') = f (last (?w2 # ws)) \<and> r \<noteq> Inl (ApduError USE_NOT_SATISFIED)"
        by blast
      have chain: "retries d D f (w # ?w2 # ws)"
        using ih(2) False fw True by simp
      have last: "last (w # ?w2 # ws) = last (?w2 # ws)" by simp
      show ?thesis
        apply (rule exI [where x = "?w2 # ws"])
        apply (rule exI [where x = r])
        apply (rule exI [where x = w'])
        using loop ih(1) chain ih(3) fw unfolding last by simp
    qed
  qed
qed

lemma poll_loop_run:
  fixes f :: "world \<Rightarrow> 'a result"
  assumes eps: "0 < \<epsilon>"
    and prog: "\<And>w0. now w0 + \<epsilon> \<le> now (snd (f w0)) + max 0 d"
  shows "\<exists>ws r w'. poll_loop d D f w = Some (r, w') \<and> retries d D f (w # ws)
           \<and> (if is_set D (last (w # ws))
               then (r, w') = (Inl (ClientError TIMEOUT), last (w # ws))
               else (r, w') = f (last (w # ws)) \<and> r \<noteq> Inl (ApduError USE_NOT_SATISFIED))"
proof -
  obtain n :: nat where "(D - now w) / \<epsilon> \<le> of_nat n"
    using real_arch_simple by blast
  then have "D - now w \<le> of_nat n * \<epsilon>" using eps by (simp add: pos_divide_le_eq)
  then show ?thesis by (rule poll_loop_run_aux [OF eps prog])
qed

lemma wait_facts:
  "trace (wait D d w1) = trace w1 \<and> now w1 \<le> now (wait D d w1)
   \<and> now (wait D d w1) \<le> now w1 + max 0 d \<and> (now w1 \<le> D \<longrightarrow> now (wait D d w1) \<le> D)"
  by (simp add: trace_wait now_wait_le now_wait_ge now_wait_deadline)


text \<open>
  C3. The polling contract of \<open>_call_polling\<close>. The budget is the caller's timeout, 30
  seconds when the caller passes none (or 0, which Python's \<open>timeout or 30\<close> reads as
  none): the deadline \<open>D\<close> is the clock at the call plus that budget. Under a clock that
  moves, that is, when every pass of the loop (the attempt and the wait of \<open>poll_delay\<close>
  after it) takes at least some fixed \<open>\<epsilon> > 0\<close>, the call always returns, and its run is a
  chain of attempts \<open>w # ws\<close> of the spec's contract: every attempt but the last found
  the budget not used up and failed with \<open>USE_NOT_SATISFIED\<close>, and was followed by a
  wait of \<open>poll_delay\<close> cut short at the deadline; at the last world either the budget
  is used up, and the call raises \<open>ClientError TIMEOUT\<close> there without another
  attempt, or the operation is invoked once more and its outcome, a value or an
  error other than \<open>USE_NOT_SATISFIED\<close>, is the outcome of the call. A
  \<open>USE_NOT_SATISFIED\<close> never reaches the caller. The wait sends nothing to the
  authenticator, never moves the clock back, lasts at most \<open>poll_delay\<close> and does not
  pass the deadline.
\<close>

theorem call_polling_contract:
  fixes func :: "world \<Rightarrow> 'a result"
  assumes "0 < \<epsilon>"
    and "\<And>w0. now w0 + \<epsilon> \<le> now (snd (func w0)) + max 0 delay"
  shows "let D = now w + (case timeout of None \<Rightarrow> 30 | Some t \<Rightarrow> if t = 0 then 30 else t) in
         (\<exists>ws r w'.
            call_polling delay timeout func w = Some (r, w')
            \<and> retries delay D func (w # ws)
            \<and> (if is_set D (last (w # ws))
                then (r, w') = (Inl (ClientError TIMEOUT), last (w # ws))
                else (r, w') = func (last (w # ws)))
            \<and> r \<noteq> Inl (ApduError USE_NOT_SATISFIED))
         \<and> (\<forall>w1. trace (wait D delay w1) = trace w1
                 \<and> now w1 \<le> now (wait D delay w1)
                 \<and> now (wait D delay w1) \<le> now w1 + max 0 delay
                 \<and> (now w1 \<le> D \<longrightarrow> now (wait D delay w1) \<le> D))"
proof -
  define D where "D = now w + (case timeout of None \<Rightarrow> 30 | Some t \<Rightarrow> if t = 0 then 30 else t)"
  have budget: "now w + timeout_or_30 timeout = D"
    by (simp add: D_def timeout_or_30_def split: option.splits)
  from poll_loop_run [where f = func and d = delay and D = D and w = w, OF assms]
  obtain ws r w'
    where run: "poll_loop delay D func w = Some (r, w')"
      "retries delay D func (w # ws)"
      "if is_set D (last (w # ws))
       then (r, w') = (Inl (ClientError TIMEOUT), last (w # ws))
       else (r, w') = func (last (w # ws)) \<and> r \<noteq> Inl (ApduError USE_NOT_SATISFIED)"
    by blast
  have c1: "call_polling delay timeout func w = Some (r, w')"
    using run(1) budget by (simp add: call_polling_def)
  have c3: "if is_set D (last (w # ws))
            then (r, w') = (Inl (ClientError TIMEOUT), last (w # ws))
            else (r, w') = func (last (w # ws))"
    using run(3) by (simp split: if_splits)
  have c4: "r \<noteq> Inl (ApduError USE_NOT_SATISFIED)"
    using run(3) by (simp split: if_splits)
  have ex: "\<exists>ws r w'.
            call_polling delay timeout func w = Some (r, w')
            \<and> retries delay D func (w # ws)
            \<and> (if is_set D (last (w # ws))
                then (r, w') = (Inl (ClientError TIMEOUT), last (w # ws))
                else (r, w') = func (last (w # ws)))
            \<and> r \<noteq> Inl (ApduError USE_NOT_SATISFIED)"
    apply (rule exI [where x = ws])
    apply (rule exI [where x = r])
    apply (rule exI [where x = w'])
    using c1 run(2) c3 c4 by (intro conjI)
  have waits: "\<forall>w1. trace (wait D delay w1) = trace w1
                 \<and> now w1 \<le> now (wait D delay w1)
                 \<and> now (wait D delay w1) \<le> now w1 + max 0 delay
                 \<and> (now w1 \<le> D \<longrightarrow> now (wait D delay w1) \<le> D)"
    using wait_facts by blast
  show ?thesis
    unfolding Let_def D_def [symmetric] using ex waits by (rule conjI)
qed

lemma ex_busy_register:
  "CTAP1_register ex_busy c a w =
     (Inl (ApduError USE_NOT_SATISFIED),
      \<lparr>now = now w, trace = trace w @ [(Register c a, Inl (ApduError USE_NOT_SATISFIED))]\<rparr>)"
  by (simp add: CTAP1_register_def ex_busy_def advance_def)

lemma ex_busy_retry:
  "now w < D \<Longrightarrow>
   poll_loop (1/4) D (CTAP1_register ex_busy c a) w =
   poll_loop (1/4) D (CTAP1_register ex_busy c a)
     \<lparr>now = min (now w + 1/4) D,
      trace = trace w @ [(Register c a, Inl (ApduError USE_NOT_SATISFIED))]\<rparr>"
proof -
  assume "now w < D"
  then have "\<not> is_set D w" by (simp add: is_set_def)
  from poll_loop_retry [OF this ex_busy_register] this show ?thesis
    by (simp add: is_set_def wait_def)
qed

lemma ex_busy_polled:
  "call_polling (1/4) (Some 1) (CTAP1_register ex_busy [1] [2]) ex_world =
     Some (Inl (ClientError TIMEOUT),
           \<lparr>now = 1, trace = replicate 4 (Register [1] [2], Inl (ApduError USE_NOT_SATISFIED))\<rparr>)"
proof -
  let ?f = "CTAP1_register ex_busy [1] [2]"
  let ?ev = "(Register [1] [2], Inl (ApduError USE_NOT_SATISFIED))"
  have "call_polling (1/4) (Some 1) ?f ex_world = poll_loop (1/4) 1 ?f \<lparr>now = 0, trace = []\<rparr>"
    by (simp add: call_polling_def timeout_or_30_def ex_world_def)
  also have "\<dots> = poll_loop (1/4) 1 ?f \<lparr>now = 1/4, trace = [?ev]\<rparr>"
    by (simp add: ex_busy_retry)
  also have "\<dots> = poll_loop (1/4) 1 ?f \<lparr>now = 1/2, trace = [?ev, ?ev]\<rparr>"
    by (simp add: ex_busy_retry)
  also have "\<dots> = poll_loop (1/4) 1 ?f \<lparr>now = 3/4, trace = [?ev, ?ev, ?ev]\<rparr>"
    by (simp add: ex_busy_retry)
  also have "\<dots> = poll_loop (1/4) 1 ?f \<lparr>now = 1, trace = [?ev, ?ev, ?ev, ?ev]\<rparr>"
    by (simp add: ex_busy_retry)
  also have "\<dots> = Some (Inl (ClientError TIMEOUT), \<lparr>now = 1, trace = [?ev, ?ev, ?ev, ?ev]\<rparr>)"
    by (simp add: poll_loop_expired is_set_def)
  finally show ?thesis by (simp add: numeral_eq_Suc)
qed

text \<open>
  Scenario 6 of the spec: the user never touches the authenticator, the caller's
  timeout is 1 second and \<open>poll_delay\<close> is 0.25 seconds. The call makes four attempts
  and raises \<open>ClientError TIMEOUT\<close> once the clock reads 1, not 30.
\<close>

theorem call_polling_contract_witness:
  "(0 :: rat) < 1/4
   \<and> (\<forall>w0. now w0 + 1/4 \<le> now (snd (CTAP1_register ex_busy [1] [2] w0)) + max 0 (1/4))
   \<and> (\<exists>ws.
        call_polling (1/4) (Some 1) (CTAP1_register ex_busy [1] [2]) ex_world =
          Some (Inl (ClientError TIMEOUT),
                \<lparr>now = 1,
                 trace = replicate 4 (Register [1] [2], Inl (ApduError USE_NOT_SATISFIED))\<rparr>)
        \<and> retries (1/4) 1 (CTAP1_register ex_busy [1] [2]) (ex_world # ws)
        \<and> is_set 1 (last (ex_world # ws))
        \<and> last (ex_world # ws) =
            \<lparr>now = 1,
             trace = replicate 4 (Register [1] [2], Inl (ApduError USE_NOT_SATISFIED))\<rparr>)"
proof -
  let ?f = "CTAP1_register ex_busy [1] [2]"
  have prog: "\<And>w0. now w0 + 1/4 \<le> now (snd (?f w0)) + max 0 (1/4)"
    by (simp add: ex_busy_register)
  have eps: "(0 :: rat) < 1/4" by simp
  from call_polling_contract [where func = ?f and delay = "1/4" and \<epsilon> = "1/4"
      and timeout = "Some 1" and w = ex_world, OF eps prog]
  obtain ws r w'
    where run: "call_polling (1/4) (Some 1) ?f ex_world = Some (r, w')"
      "retries (1/4) 1 ?f (ex_world # ws)"
      "if is_set 1 (last (ex_world # ws))
       then (r, w') = (Inl (ClientError TIMEOUT), last (ex_world # ws))
       else (r, w') = ?f (last (ex_world # ws))"
    unfolding Let_def by (auto simp add: ex_world_def)
  from run(1) have r: "r = Inl (ClientError TIMEOUT)"
    and w': "w' = \<lparr>now = 1,
                 trace = replicate 4 (Register [1] [2], Inl (ApduError USE_NOT_SATISFIED))\<rparr>"
    by (simp_all add: ex_busy_polled)
  have exp: "is_set 1 (last (ex_world # ws))"
  proof (rule ccontr)
    assume "\<not> is_set 1 (last (ex_world # ws))"
    with run(3) have "(r, w') = ?f (last (ex_world # ws))" by simp
    with r show False by (simp add: ex_busy_register)
  qed
  with run(3) have last: "last (ex_world # ws) = w'" by simp
  have "\<exists>ws.
        call_polling (1/4) (Some 1) ?f ex_world =
          Some (Inl (ClientError TIMEOUT),
                \<lparr>now = 1,
                 trace = replicate 4 (Register [1] [2], Inl (ApduError USE_NOT_SATISFIED))\<rparr>)
        \<and> retries (1/4) 1 ?f (ex_world # ws)
        \<and> is_set 1 (last (ex_world # ws))
        \<and> last (ex_world # ws) =
            \<lparr>now = 1,
             trace = replicate 4 (Register [1] [2], Inl (ApduError USE_NOT_SATISFIED))\<rparr>"
    apply (rule exI [where x = ws])
    using run(2) exp last w' ex_busy_polled by (intro conjI) simp_all
  with eps prog show ?thesis by blast
qed

text \<open>
  C2, as the spec states it, fails: the authenticator of the examples answers the first
  attempt with \<open>USE_NOT_SATISFIED\<close>; with \<open>timeout = 0\<close> the driver waits, makes a second
  attempt and returns its result instead of raising \<open>TIMEOUT\<close>.
\<close>

theorem timeout_zero_counterexample:
  "CTAP1_register ex_ctap1 [1] [2] ex_world =
     (Inl (ApduError USE_NOT_SATISFIED),
      \<lparr>now = 0, trace = [(Register [1] [2], Inl (ApduError USE_NOT_SATISFIED))]\<rparr>)
   \<and> call_polling (1 / 4) (Some 0) (CTAP1_register ex_ctap1 [1] [2]) ex_world =
       Some (Inr ex_reg,
             \<lparr>now = 1 / 4,
              trace = [(Register [1] [2], Inl (ApduError USE_NOT_SATISFIED)),
                       (Register [1] [2], Inr (RReg ex_reg))]\<rparr>)"
  using ex_register_untouched [OF ex_world_untouched, of "[1]" "[2]"]
    ex_poll_register [OF ex_world_untouched, of 30 "[1]" "[2]"]
  by (simp add: call_polling_def timeout_or_30_def ex_world_def)

text \<open>
  C2, amended. A timeout of 0 is falsy in \<open>timeout or 30\<close>: the driver runs exactly as
  with no timeout at all, under the 30-second default budget.
\<close>

theorem timeout_zero_is_default:
  "call_polling d (Some 0) func w = call_polling d None func w
   \<and> call_polling d (Some 0) func w = poll_loop d (now w + 30) func w"
  by (simp add: call_polling_def timeout_or_30_def)

section \<open>Preconditions of the CTAP1 path, the verifier of U2fClient, ClientData\<close>


lemma ex_char_roundtrip: "char_of (unat (of_nat (of_char c) :: 8 word)) = c"
proof -
  have "(of_char c :: nat) < 256" by simp
  then have "unat (of_nat (of_char c) :: 8 word) = of_char c"
    by (simp add: unat_of_nat)
  then show ?thesis by simp
qed

lemma ex_decode_encode: "decode ex_prims (encode ex_prims s) = Inr s"
  by (simp add: ex_prims_def ex_char_roundtrip comp_def)

lemma ex_websafe_decode_key: "websafe_decode ex_prims [CHR 0x07, CHR 0x07] = Inr [7, 7]"
  by (simp add: ex_prims_def)

text \<open>
  C6. On the CTAP1 path \<open>make_credential\<close> raises \<open>UNSUPPORTED_OPTION\<close> whenever \<open>rk\<close> or
  \<open>uv\<close> is true, and \<open>get_assertion\<close> raises it whenever \<open>rk\<close> or \<open>uv\<close> is true or the
  allow list is absent or empty. The world it returns is the one it was called in: no
  command has been issued to the authenticator.
\<close>

theorem ctap1_unsupported_option:
  "(rk \<or> uv \<longrightarrow>
      ctap1_make_credential p self dev cd rp user algos exclude_list extensions rk uv pin
        timeout w = Some (Inl (CtapError UNSUPPORTED_OPTION), w))
   \<and> (rk \<or> uv \<or> allow_list = None \<or> allow_list = Some [] \<longrightarrow>
      ctap1_get_assertion p self dev cd rpid allow_list extensions rk uv pin timeout w =
        Some (Inl (CtapError UNSUPPORTED_OPTION), w))"
  by (simp add: ctap1_make_credential_def ctap1_get_assertion_def)

theorem ctap1_unsupported_option_witness:
  "ctap1_make_credential ex_prims ex_fido2_client ex_ctap1 ex_client_data ex_rp JNull [- 7]
     None None True False None None ex_world = Some (Inl (CtapError UNSUPPORTED_OPTION), ex_world)
   \<and> ctap1_get_assertion ex_prims ex_fido2_client ex_ctap1 ex_client_data ''example.com''
     (Some []) None False False None None ex_world =
       Some (Inl (CtapError UNSUPPORTED_OPTION), ex_world)"
  using ctap1_unsupported_option
      [where rk = True and uv = False and p = ex_prims and self = ex_fido2_client
         and dev = ex_ctap1 and cd = ex_client_data and rp = ex_rp and user = JNull
         and algos = "[- 7]" and exclude_list = None and extensions = None and pin = None
         and timeout = None and w = ex_world]
    ctap1_unsupported_option
      [where rk = False and uv = False and allow_list = "Some []" and p = ex_prims
         and self = ex_fido2_client and dev = ex_ctap1 and cd = ex_client_data
         and rpid = "''example.com''" and extensions = None and pin = None
         and timeout = None and w = ex_world]
  by simp

text \<open>
  C10. The constructor of \<open>U2fClient\<close> installs \<open>verify_app_id\<close> whatever verifier the
  caller passes: two clients that differ only in that argument are the same client, and
  \<open>register\<close> and \<open>sign\<close> give the same result on both.
\<close>

theorem U2fClient_ignores_verify:
  "u2f_verify (U2fClient_init p dev origin v1) = verify_app_id p
   \<and> U2fClient_init p dev origin v1 = U2fClient_init p dev origin v2
   \<and> U2fClient_register p (U2fClient_init p dev origin v1) app_id register_requests
       registered_keys timeout w =
     U2fClient_register p (U2fClient_init p dev origin v2) app_id register_requests
       registered_keys timeout w
   \<and> U2fClient_sign p (U2fClient_init p dev origin v1) app_id c registered_keys timeout w =
     U2fClient_sign p (U2fClient_init p dev origin v2) app_id c registered_keys timeout w"
  by (simp add: U2fClient_init_def)

text \<open>
  C8, as the spec states it, fails: the blob \<open>{}\<close> is a JSON object without an origin, and
  constructing a \<open>ClientData\<close> from it raises the \<open>KeyError\<close> of the lookup
  \<open>self.data['origin']\<close>, not the client error \<open>BAD_REQUEST\<close>.
\<close>

theorem ClientData_without_origin_counterexample:
  "ClientData_init ex_prims (encode ex_prims ''{}'') = Inl (KeyError ''origin'')
   \<and> ClientData_init ex_prims (encode ex_prims ''{}'') \<noteq> Inl (ClientError BAD_REQUEST)"
  by (simp add: ClientData_init_def ex_decode_encode) (simp add: ex_prims_def ex_json_loads_def)

text \<open>
  C8, amended. Constructing a \<open>ClientData\<close> from a blob whose JSON is an object with no
  \<open>origin\<close> member fails with \<open>KeyError('origin')\<close>.
\<close>

theorem ClientData_without_origin:
  "decode p data = Inr text \<Longrightarrow> json_loads p text = Inr (JObj kvs) \<Longrightarrow>
   map_of kvs ''origin'' = None \<Longrightarrow> ClientData_init p data = Inl (KeyError ''origin'')"
  by (simp add: ClientData_init_def)

theorem ClientData_without_origin_witness:
  "ClientData_init ex_prims (encode ex_prims ''{}'') = Inl (KeyError ''origin'')"
proof -
  have "json_loads ex_prims ''{}'' = Inr (JObj [])"
    by (simp add: ex_prims_def ex_json_loads_def)
  from ClientData_without_origin [OF ex_decode_encode this] show ?thesis by simp
qed

section \<open>The trace of the two clients\<close>


subsection \<open>What each transport call leaves in the trace\<close>

lemma trace_CTAP1_get_version:
  "CTAP1_get_version dev w = (r, w1) \<Longrightarrow>
   trace w1 = trace w @ [(GetVersion, map_sum id RVersion r)]"
  by (auto simp: CTAP1_get_version_def advance_def split: prod.splits)

lemma trace_CTAP1_register:
  "CTAP1_register dev c a w = (r, w1) \<Longrightarrow>
   trace w1 = trace w @ [(Register c a, map_sum id RReg r)]"
  by (auto simp: CTAP1_register_def advance_def split: prod.splits)

lemma trace_CTAP1_authenticate:
  "CTAP1_authenticate dev c a kh check_only w = (r, w1) \<Longrightarrow>
   trace w1 = trace w @ [(Authenticate c a kh check_only, map_sum id RSig r)]"
  by (auto simp: CTAP1_authenticate_def advance_def split: prod.splits)

lemma trace_CTAP2_get_info:
  "CTAP2_get_info dev w = (r, w1) \<Longrightarrow> trace w1 = trace w @ [(GetInfo, map_sum id RInfo r)]"
  by (auto simp: CTAP2_get_info_def advance_def split: prod.splits)

lemma trace_get_pin_token:
  "PinProtocolV1_get_pin_token dev pin w = (r, w1) \<Longrightarrow>
   trace w1 = trace w @ [(GetPinToken pin, map_sum id RToken r)]"
  by (auto simp: PinProtocolV1_get_pin_token_def advance_def split: prod.splits)

lemma trace_CTAP2_make_credential:
  "CTAP2_make_credential dev args w = (r, w1) \<Longrightarrow>
   trace w1 = trace w @ [(MakeCredential args, map_sum id RAtt r)]"
  by (auto simp: CTAP2_make_credential_def advance_def split: prod.splits)

lemma trace_CTAP2_get_assertion:
  "CTAP2_get_assertion dev args w = (r, w1) \<Longrightarrow>
   trace w1 = trace w @ [(GetAssertion args, map_sum id RAssertion r)]"
  by (auto simp: CTAP2_get_assertion_def advance_def split: prod.splits)

lemma trace_CTAP2_get_next_assertion:
  "CTAP2_get_next_assertion dev w = (r, w1) \<Longrightarrow>
   trace w1 = trace w @ [(GetNextAssertion, map_sum id RAssertion r)]"
  by (auto simp: CTAP2_get_next_assertion_def advance_def split: prod.splits)

subsection \<open>The CTAP2 path\<close>

lemma get_next_assertions_extends:
  "\<exists>evs. trace (snd (get_next_assertions dev k acc w)) = trace w @ evs"
proof (induction k arbitrary: acc w)
  case 0
  then show ?case by simp
next
  case (Suc k)
  obtain r w1 where step: "CTAP2_get_next_assertion dev w = (r, w1)"
    by (cases "CTAP2_get_next_assertion dev w")
  note t = trace_CTAP2_get_next_assertion [OF step]
  show ?case
  proof (cases r)
    case (Inl e)
    with step t show ?thesis by simp
  next
    case (Inr a)
    from Suc.IH [of "acc @ [a]" w1] obtain evs
      where "trace (snd (get_next_assertions dev k (acc @ [a]) w1)) = trace w1 @ evs" ..
    with step t Inr show ?thesis by simp
  qed
qed

lemma get_next_assertions_success:
  "get_next_assertions dev k acc w = (Inr assertions, w') \<Longrightarrow>
   \<exists>new. assertions = acc @ new \<and> length new = k
        \<and> trace w' = trace w @ map (\<lambda>a. (GetNextAssertion, Inr (RAssertion a))) new"
proof (induction k arbitrary: acc w)
  case 0
  then show ?case by simp
next
  case (Suc k)
  obtain r w1 where step: "CTAP2_get_next_assertion dev w = (r, w1)"
    by (cases "CTAP2_get_next_assertion dev w")
  note t = trace_CTAP2_get_next_assertion [OF step]
  show ?case
  proof (cases r)
    case (Inl e)
    with step Suc.prems show ?thesis by simp
  next
    case (Inr a)
    with step Suc.prems
    have "get_next_assertions dev k (acc @ [a]) w1 = (Inr assertions, w')" by simp
    from Suc.IH [OF this] obtain new where new: "assertions = (acc @ [a]) @ new"
      "length new = k"
      "trace w' = trace w1 @ map (\<lambda>a. (GetNextAssertion, Inr (RAssertion a))) new"
      by blast
    have "assertions = acc @ (a # new)" using new(1) by simp
    moreover have "length (a # new) = Suc k" using new(2) by simp
    moreover have "trace w' =
        trace w @ map (\<lambda>a. (GetNextAssertion, Inr (RAssertion a))) (a # new)"
      using new(3) t Inr by simp
    ultimately show ?thesis by blast
  qed
qed

lemma pin_block_unsupported:
  "truthy_pin pin \<Longrightarrow> VERSION \<notin> set (pin_protocols info) \<Longrightarrow>
   pin_block p dev cd pin info w =
     (Inl (ValueError ''Device does not support PIN protocol 1!''), w)"
  by (simp add: pin_block_def)

lemma pin_block_required:
  "\<not> truthy_pin pin \<Longrightarrow> map_of (options info) ''clientPin'' = Some True \<Longrightarrow>
   pin_block p dev cd pin info w = (Inl (ValueError ''PIN required!''), w)"
  by (simp add: pin_block_def)

lemma pin_block_token:
  "truthy_pin pin \<Longrightarrow> VERSION \<in> set (pin_protocols info) \<Longrightarrow>
   PinProtocolV1_get_pin_token dev (the pin) w = (Inr pin_token, w1) \<Longrightarrow>
   pin_block p dev cd pin info w =
     (Inr (Some (take 16 (hmac_sha256 p pin_token (hash p cd))), Some 1), w1)"
  by (simp add: pin_block_def VERSION_def)

lemma pin_block_trace:
  "pin_block p dev cd pin info w = (Inr (pin_auth, pin_protocol), w1) \<Longrightarrow>
   trace w1 = trace w \<or> (\<exists>ev. fst ev = GetPinToken (the pin) \<and> trace w1 = trace w @ [ev])"
  by (auto simp: pin_block_def Let_def dest: trace_get_pin_token
      split: if_splits prod.splits sum.splits)

section \<open>The PIN policy and the assertions of the CTAP2 path\<close>


text \<open>
  C5. On the CTAP2 path of \<open>make_credential\<close> and of \<open>get_assertion\<close>, once the device has
  answered \<open>get_info\<close> (the only command sent so far): a PIN given to a device whose
  \<open>pin_protocols\<close> lack version 1 ends in the error "Device does not support PIN protocol
  1!", and no PIN given to a device whose \<open>clientPin\<close> option is true ends in "PIN
  required!", both in the world right after \<open>get_info\<close>, so before any
  \<open>make_credential\<close> or \<open>get_assertion\<close> command. When the PIN is given and supported and
  the PIN protocol hands out \<open>pin_token\<close>, the command that follows carries
  \<open>pin_auth = HMAC-SHA-256(pin_token, client_data.hash)[:16]\<close> and \<open>pin_protocol = 1\<close>.
\<close>

theorem ctap2_pin_policy:
  assumes info: "CTAP2_get_info dev w = (Inr info, w1)"
  shows
    "trace w1 = trace w @ [(GetInfo, Inr (RInfo info))]
     \<and> (truthy_pin pin \<and> VERSION \<notin> set (pin_protocols info) \<longrightarrow>
          ctap2_make_credential p dev cd rp user algos exclude_list extensions rk uv pin
            timeout w = (Inl (ValueError ''Device does not support PIN protocol 1!''), w1)
        \<and> ctap2_get_assertion p dev cd rpid allow_list extensions rk uv pin timeout w =
            (Inl (ValueError ''Device does not support PIN protocol 1!''), w1))
     \<and> (\<not> truthy_pin pin \<and> map_of (options info) ''clientPin'' = Some True \<longrightarrow>
          ctap2_make_credential p dev cd rp user algos exclude_list extensions rk uv pin
            timeout w = (Inl (ValueError ''PIN required!''), w1)
        \<and> ctap2_get_assertion p dev cd rpid allow_list extensions rk uv pin timeout w =
            (Inl (ValueError ''PIN required!''), w1))
     \<and> (\<forall>pin_token w2.
          truthy_pin pin \<and> VERSION \<in> set (pin_protocols info)
          \<and> PinProtocolV1_get_pin_token dev (the pin) w1 = (Inr pin_token, w2) \<longrightarrow>
          (\<exists>args r.
             trace (snd (ctap2_make_credential p dev cd rp user algos exclude_list extensions
                           rk uv pin timeout w)) = trace w2 @ [(MakeCredential args, r)]
           \<and> mc_pin_auth args = Some (take 16 (hmac_sha256 p pin_token (hash p cd)))
           \<and> mc_pin_protocol args = Some 1)
        \<and> (\<exists>args r rest.
             trace (snd (ctap2_get_assertion p dev cd rpid allow_list extensions rk uv pin
                           timeout w)) = trace w2 @ (GetAssertion args, r) # rest
           \<and> ga_pin_auth args = Some (take 16 (hmac_sha256 p pin_token (hash p cd)))
           \<and> ga_pin_protocol args = Some 1))"
proof (intro conjI allI impI)
  show "trace w1 = trace w @ [(GetInfo, Inr (RInfo info))]"
    using trace_CTAP2_get_info [OF info] by simp
next
  assume "truthy_pin pin \<and> VERSION \<notin> set (pin_protocols info)"
  then have pb: "pin_block p dev cd pin info w1 =
      (Inl (ValueError ''Device does not support PIN protocol 1!''), w1)"
    by (simp add: pin_block_unsupported)
  show "ctap2_make_credential p dev cd rp user algos exclude_list extensions rk uv pin
          timeout w = (Inl (ValueError ''Device does not support PIN protocol 1!''), w1)"
    by (simp add: ctap2_make_credential_def info pb)
  show "ctap2_get_assertion p dev cd rpid allow_list extensions rk uv pin timeout w =
          (Inl (ValueError ''Device does not support PIN protocol 1!''), w1)"
    by (simp add: ctap2_get_assertion_def info pb)
next
  assume "\<not> truthy_pin pin \<and> map_of (options info) ''clientPin'' = Some True"
  then have pb: "pin_block p dev cd pin info w1 = (Inl (ValueError ''PIN required!''), w1)"
    by (simp add: pin_block_required)
  show "ctap2_make_credential p dev cd rp user algos exclude_list extensions rk uv pin
          timeout w = (Inl (ValueError ''PIN required!''), w1)"
    by (simp add: ctap2_make_credential_def info pb)
  show "ctap2_get_assertion p dev cd rpid allow_list extensions rk uv pin timeout w =
          (Inl (ValueError ''PIN required!''), w1)"
    by (simp add: ctap2_get_assertion_def info pb)
next
  fix pin_token w2
  assume a: "truthy_pin pin \<and> VERSION \<in> set (pin_protocols info)
    \<and> PinProtocolV1_get_pin_token dev (the pin) w1 = (Inr pin_token, w2)"
  let ?auth = "Some (take 16 (hmac_sha256 p pin_token (hash p cd)))"
  from a have pb: "pin_block p dev cd pin info w1 = (Inr (?auth, Some 1), w2)"
    by (simp add: pin_block_token)
  let ?margs = "\<lparr>mc_client_data_hash = hash p cd, mc_rp = rp, mc_user = user,
      mc_key_params = map (\<lambda>a. \<lparr>kp_type = ''public-key'', alg = a\<rparr>) algos,
      mc_exclude_list = exclude_list, mc_extensions = extensions,
      mc_options = options_block rk uv, mc_pin_auth = ?auth, mc_pin_protocol = Some 1,
      mc_timeout = timeout\<rparr>"
  have mc: "ctap2_make_credential p dev cd rp user algos exclude_list extensions rk uv pin
      timeout w = CTAP2_make_credential dev ?margs w2"
    by (simp add: ctap2_make_credential_def info pb)
  obtain r w3 where call: "CTAP2_make_credential dev ?margs w2 = (r, w3)"
    by (cases "CTAP2_make_credential dev ?margs w2")
  from trace_CTAP2_make_credential [OF call] mc call
  have "trace (snd (ctap2_make_credential p dev cd rp user algos exclude_list extensions
                      rk uv pin timeout w)) =
          trace w2 @ [(MakeCredential ?margs, map_sum id RAtt r)]"
    by simp
  moreover have "mc_pin_auth ?margs = ?auth" "mc_pin_protocol ?margs = Some 1" by simp_all
  ultimately show "\<exists>args r.
      trace (snd (ctap2_make_credential p dev cd rp user algos exclude_list extensions
                    rk uv pin timeout w)) = trace w2 @ [(MakeCredential args, r)]
      \<and> mc_pin_auth args = Some (take 16 (hmac_sha256 p pin_token (hash p cd)))
      \<and> mc_pin_protocol args = Some 1"
    by blast
  let ?gargs = "\<lparr>ga_rp_id = rpid, ga_client_data_hash = hash p cd,
      ga_allow_list = allow_list, ga_extensions = extensions,
      ga_options = options_block rk uv, ga_pin_auth = ?auth, ga_pin_protocol = Some 1,
      ga_timeout = timeout\<rparr>"
  obtain r' w3' where gcall: "CTAP2_get_assertion dev ?gargs w2 = (r', w3')"
    by (cases "CTAP2_get_assertion dev ?gargs w2")
  note gt = trace_CTAP2_get_assertion [OF gcall]
  have "\<exists>rest. trace (snd (ctap2_get_assertion p dev cd rpid allow_list extensions rk uv pin
            timeout w)) = trace w2 @ (GetAssertion ?gargs, map_sum id RAssertion r') # rest"
  proof (cases r')
    case (Inl e)
    then show ?thesis using gcall gt by (simp add: ctap2_get_assertion_def info pb)
  next
    case (Inr first)
    obtain evs where "trace (snd (get_next_assertions dev
        (nat (number_or_1 (number_of_credentials first) - 1)) [first] w3')) = trace w3' @ evs"
      using get_next_assertions_extends by blast
    then show ?thesis using gcall gt Inr by (simp add: ctap2_get_assertion_def info pb)
  qed
  moreover have "ga_pin_auth ?gargs = ?auth" "ga_pin_protocol ?gargs = Some 1" by simp_all
  ultimately show "\<exists>args r rest.
      trace (snd (ctap2_get_assertion p dev cd rpid allow_list extensions rk uv pin
                    timeout w)) = trace w2 @ (GetAssertion args, r) # rest
      \<and> ga_pin_auth args = Some (take 16 (hmac_sha256 p pin_token (hash p cd)))
      \<and> ga_pin_protocol args = Some 1"
    by blast
qed


lemma ex_ctap2_get_info:
  "CTAP2_get_info ex_ctap2 ex_world =
     (Inr \<lparr>pin_protocols = [1], options = [(''clientPin'', True)]\<rparr>,
      \<lparr>now = 0,
       trace = [(GetInfo, Inr (RInfo \<lparr>pin_protocols = [1], options = [(''clientPin'', True)]\<rparr>))]\<rparr>)"
  by (simp add: CTAP2_get_info_def ex_ctap2_def ex_world_def advance_def)

lemma ex_ctap2_no_pin_get_info:
  "CTAP2_get_info ex_ctap2_no_pin ex_world =
     (Inr \<lparr>pin_protocols = [], options = []\<rparr>,
      \<lparr>now = 0, trace = [(GetInfo, Inr (RInfo \<lparr>pin_protocols = [], options = []\<rparr>))]\<rparr>)"
  by (simp add: CTAP2_get_info_def ex_ctap2_no_pin_def ex_ctap2_def ex_world_def advance_def)

lemma ex_ctap2_get_pin_token:
  "PinProtocolV1_get_pin_token ex_ctap2 ''1234'' w =
     (Inr (replicate 16 5),
      \<lparr>now = now w, trace = trace w @ [(GetPinToken ''1234'', Inr (RToken (replicate 16 5)))]\<rparr>)"
  by (simp add: PinProtocolV1_get_pin_token_def ex_ctap2_def advance_def)

theorem ctap2_pin_policy_witness:
  "ctap2_make_credential ex_prims ex_ctap2_no_pin ex_client_data ex_rp JNull [- 7] None None
     False False (Some ''1234'') None ex_world =
     (Inl (ValueError ''Device does not support PIN protocol 1!''),
      \<lparr>now = 0, trace = [(GetInfo, Inr (RInfo \<lparr>pin_protocols = [], options = []\<rparr>))]\<rparr>)
   \<and> ctap2_get_assertion ex_prims ex_ctap2 ex_client_data ''example.com'' None None
     False False None None ex_world =
     (Inl (ValueError ''PIN required!''),
      \<lparr>now = 0,
       trace = [(GetInfo, Inr (RInfo \<lparr>pin_protocols = [1], options = [(''clientPin'', True)]\<rparr>))]\<rparr>)
   \<and> (\<exists>args r.
        trace (snd (ctap2_make_credential ex_prims ex_ctap2 ex_client_data ex_rp JNull [- 7]
                      None None False False (Some ''1234'') None ex_world)) =
          [(GetInfo, Inr (RInfo \<lparr>pin_protocols = [1], options = [(''clientPin'', True)]\<rparr>)),
           (GetPinToken ''1234'', Inr (RToken (replicate 16 5))),
           (MakeCredential args, r)]
      \<and> mc_pin_auth args =
          Some (take 16 (hmac_sha256 ex_prims (replicate 16 5) (hash ex_prims ex_client_data)))
      \<and> mc_pin_protocol args = Some 1)"
proof -
  have a: "truthy_pin (Some ''1234'') \<and> VERSION \<notin> set (pin_protocols \<lparr>pin_protocols = [], options = []\<rparr>)"
    by simp
  have b: "\<not> truthy_pin None
    \<and> map_of (options \<lparr>pin_protocols = [1], options = [(''clientPin'', True)]\<rparr>) ''clientPin'' = Some True"
    by simp
  have c: "truthy_pin (Some ''1234'')
    \<and> VERSION \<in> set (pin_protocols \<lparr>pin_protocols = [1], options = [(''clientPin'', True)]\<rparr>)
    \<and> PinProtocolV1_get_pin_token ex_ctap2 (the (Some ''1234''))
        \<lparr>now = 0,
         trace = [(GetInfo, Inr (RInfo \<lparr>pin_protocols = [1], options = [(''clientPin'', True)]\<rparr>))]\<rparr> =
       (Inr (replicate 16 5),
        \<lparr>now = 0,
         trace = [(GetInfo, Inr (RInfo \<lparr>pin_protocols = [1], options = [(''clientPin'', True)]\<rparr>)),
                  (GetPinToken ''1234'', Inr (RToken (replicate 16 5)))]\<rparr>)"
    by (simp add: VERSION_def ex_ctap2_get_pin_token)
  note no_pin = ctap2_pin_policy [OF ex_ctap2_no_pin_get_info,
      where pin = "Some ''1234''" and p = ex_prims and cd = ex_client_data and rp = ex_rp
        and user = JNull and algos = "[- 7]" and exclude_list = None and extensions = None
        and rk = False and uv = False and timeout = None]
  note required = ctap2_pin_policy [OF ex_ctap2_get_info,
      where pin = None and p = ex_prims and cd = ex_client_data
        and rpid = "''example.com''" and allow_list = None and extensions = None
        and rk = False and uv = False and timeout = None]
  note token = ctap2_pin_policy [OF ex_ctap2_get_info,
      where pin = "Some ''1234''" and p = ex_prims and cd = ex_client_data and rp = ex_rp
        and user = JNull and algos = "[- 7]" and exclude_list = None and extensions = None
        and rk = False and uv = False and timeout = None]
  from no_pin a have 1: "ctap2_make_credential ex_prims ex_ctap2_no_pin ex_client_data ex_rp
      JNull [- 7] None None False False (Some ''1234'') None ex_world =
     (Inl (ValueError ''Device does not support PIN protocol 1!''),
      \<lparr>now = 0, trace = [(GetInfo, Inr (RInfo \<lparr>pin_protocols = [], options = []\<rparr>))]\<rparr>)"
    by blast
  from required b have 2: "ctap2_get_assertion ex_prims ex_ctap2 ex_client_data
      ''example.com'' None None False False None None ex_world =
     (Inl (ValueError ''PIN required!''),
      \<lparr>now = 0,
       trace = [(GetInfo, Inr (RInfo \<lparr>pin_protocols = [1], options = [(''clientPin'', True)]\<rparr>))]\<rparr>)"
    by blast
  from token [THEN conjunct2, THEN conjunct2, THEN conjunct2, rule_format, OF c, THEN conjunct1]
  have 3: "\<exists>args r.
        trace (snd (ctap2_make_credential ex_prims ex_ctap2 ex_client_data ex_rp JNull [- 7]
                      None None False False (Some ''1234'') None ex_world)) =
          [(GetInfo, Inr (RInfo \<lparr>pin_protocols = [1], options = [(''clientPin'', True)]\<rparr>)),
           (GetPinToken ''1234'', Inr (RToken (replicate 16 5))),
           (MakeCredential args, r)]
      \<and> mc_pin_auth args =
          Some (take 16 (hmac_sha256 ex_prims (replicate 16 5) (hash ex_prims ex_client_data)))
      \<and> mc_pin_protocol args = Some 1"
    by simp
  from 1 2 3 show ?thesis by blast
qed

text \<open>
  C4. When \<open>get_assertion\<close> on the CTAP2 path returns, the list it returns is the
  response to the \<open>get_assertion\<close> command followed by the responses to the
  \<open>get_next_assertion\<close> commands, in the order of the calls, and these are all such calls
  of the run. When the first response reports \<open>number_of_credentials = n\<close> with \<open>n \<ge> 2\<close>
  there are \<open>n - 1\<close> of them and the list has length \<open>n\<close>; when the field is \<open>None\<close> there
  is none.
\<close>

theorem ctap2_get_assertion_collects:
  assumes run: "ctap2_get_assertion p dev cd rpid allow_list extensions rk uv pin timeout w =
                  (Inr assertions, w')"
  shows "\<exists>first rest pre args.
           assertions = first # rest
         \<and> trace w' = trace w @ pre @ (GetAssertion args, Inr (RAssertion first))
                        # map (\<lambda>a. (GetNextAssertion, Inr (RAssertion a))) rest
         \<and> (\<forall>ev \<in> set pre. fst ev \<noteq> GetNextAssertion)
         \<and> (\<forall>n. 2 \<le> n \<and> number_of_credentials first = Some n \<longrightarrow>
                int (length rest) = n - 1 \<and> int (length assertions) = n)
         \<and> (number_of_credentials first = None \<longrightarrow> rest = [])"
proof -
  from run obtain info w1 pin_auth pin_protocol w2 first w3
    where gi: "CTAP2_get_info dev w = (Inr info, w1)"
      and pb: "pin_block p dev cd pin info w1 = (Inr (pin_auth, pin_protocol), w2)"
      and ga: "CTAP2_get_assertion dev
                 \<lparr>ga_rp_id = rpid, ga_client_data_hash = hash p cd,
                  ga_allow_list = allow_list, ga_extensions = extensions,
                  ga_options = options_block rk uv, ga_pin_auth = pin_auth,
                  ga_pin_protocol = pin_protocol, ga_timeout = timeout\<rparr> w2 = (Inr first, w3)"
      and gn: "get_next_assertions dev (nat (number_or_1 (number_of_credentials first) - 1))
                 [first] w3 = (Inr assertions, w')"
    by (auto simp: ctap2_get_assertion_def split: prod.splits sum.splits)
  let ?args = "\<lparr>ga_rp_id = rpid, ga_client_data_hash = hash p cd,
                  ga_allow_list = allow_list, ga_extensions = extensions,
                  ga_options = options_block rk uv, ga_pin_auth = pin_auth,
                  ga_pin_protocol = pin_protocol, ga_timeout = timeout\<rparr>"
  from get_next_assertions_success [OF gn] obtain rest
    where rest: "assertions = [first] @ rest"
      "length rest = nat (number_or_1 (number_of_credentials first) - 1)"
      "trace w' = trace w3 @ map (\<lambda>a. (GetNextAssertion, Inr (RAssertion a))) rest"
    by blast
  have t1: "trace w1 = trace w @ [(GetInfo, Inr (RInfo info))]"
    using trace_CTAP2_get_info [OF gi] by simp
  have t3: "trace w3 = trace w2 @ [(GetAssertion ?args, Inr (RAssertion first))]"
    using trace_CTAP2_get_assertion [OF ga] by simp
  from pin_block_trace [OF pb] t1 obtain pre
    where pre: "trace w2 = trace w @ pre" "\<forall>ev \<in> set pre. fst ev \<noteq> GetNextAssertion"
    by fastforce
  have c1: "assertions = first # rest" using rest(1) by simp
  have c2: "trace w' = trace w @ pre @ (GetAssertion ?args, Inr (RAssertion first))
                        # map (\<lambda>a. (GetNextAssertion, Inr (RAssertion a))) rest"
    using rest(3) t3 pre(1) by simp
  have c4: "\<forall>n. 2 \<le> n \<and> number_of_credentials first = Some n \<longrightarrow>
                int (length rest) = n - 1 \<and> int (length assertions) = n"
    using rest(1,2) by (auto simp: number_or_1_def)
  have c5: "number_of_credentials first = None \<longrightarrow> rest = []"
    using rest(2) by (auto simp: number_or_1_def)
  show ?thesis
    apply (rule exI [where x = first])
    apply (rule exI [where x = rest])
    apply (rule exI [where x = pre])
    apply (rule exI [where x = ?args])
    apply (intro conjI)
        apply (rule c1)
       apply (rule c2)
      apply (rule pre(2))
     apply (rule c4)
    apply (rule c5)
    done
qed

lemma ex_ctap2_get_assertion:
  "CTAP2_get_assertion ex_ctap2 args w =
     (Inr (ex_assertion (Some 3)),
      \<lparr>now = now w,
       trace = trace w @ [(GetAssertion args, Inr (RAssertion (ex_assertion (Some 3))))]\<rparr>)"
  by (simp add: CTAP2_get_assertion_def ex_ctap2_def advance_def)

lemma ex_ctap2_get_next_assertion:
  "CTAP2_get_next_assertion ex_ctap2 w =
     (Inr (ex_assertion None),
      \<lparr>now = now w,
       trace = trace w @ [(GetNextAssertion, Inr (RAssertion (ex_assertion None)))]\<rparr>)"
  by (simp add: CTAP2_get_next_assertion_def ex_ctap2_def advance_def)

lemma number_of_credentials_ex_assertion: "number_of_credentials (ex_assertion n) = n"
  by (simp add: ex_assertion_def)

lemma ex_ctap2_get_assertion_run:
  "fst (ctap2_get_assertion ex_prims ex_ctap2 ex_client_data ''example.com'' None None
          False False (Some ''1234'') None ex_world) =
     Inr [ex_assertion (Some 3), ex_assertion None, ex_assertion None]"
  by (simp add: ctap2_get_assertion_def ex_ctap2_get_info pin_block_def VERSION_def
      ex_ctap2_get_pin_token ex_ctap2_get_assertion ex_ctap2_get_next_assertion
      number_of_credentials_ex_assertion number_or_1_def numeral_2_eq_2)

theorem ctap2_get_assertion_collects_witness:
  "\<exists>pre args.
     trace (snd (ctap2_get_assertion ex_prims ex_ctap2 ex_client_data ''example.com'' None None
                   False False (Some ''1234'') None ex_world)) =
       trace ex_world @ pre @
         [(GetAssertion args, Inr (RAssertion (ex_assertion (Some 3)))),
          (GetNextAssertion, Inr (RAssertion (ex_assertion None))),
          (GetNextAssertion, Inr (RAssertion (ex_assertion None)))]
   \<and> int (length [ex_assertion (Some 3), ex_assertion None, ex_assertion None]) = 3"
proof -
  let ?run = "ctap2_get_assertion ex_prims ex_ctap2 ex_client_data ''example.com'' None None
                False False (Some ''1234'') None ex_world"
  have "?run = (Inr [ex_assertion (Some 3), ex_assertion None, ex_assertion None], snd ?run)"
    using ex_ctap2_get_assertion_run by (metis prod.collapse)
  from ctap2_get_assertion_collects [OF this] show ?thesis by auto
qed

section \<open>The attestation object of the CTAP1 path\<close>


subsection \<open>What a polled transport call leaves in the trace\<close>

lemma poll_loop_trace:
  fixes f :: "world \<Rightarrow> 'a result"
  assumes run: "poll_loop d D f w = Some res"
    and ev: "\<And>w0. trace (snd (f w0)) = trace w0 @ [ev_of (fst (f w0))]"
  shows "\<exists>rs. trace (snd res) = trace w @ map ev_of rs
              \<and> (\<forall>v. fst res = Inr v \<longrightarrow> rs \<noteq> [] \<and> last rs = Inr v)"
proof -
  have "(\<forall>w0. trace (snd (f w0)) = trace w0 @ [ev_of (fst (f w0))]) \<longrightarrow>
        (\<exists>rs. trace (snd res) = trace w @ map ev_of rs
              \<and> (\<forall>v. fst res = Inr v \<longrightarrow> rs \<noteq> [] \<and> last rs = Inr v))"
  proof (rule poll_loop.raw_induct
      [where P = "\<lambda>d D f w res.
         (\<forall>w0. trace (snd (f w0)) = trace w0 @ [ev_of (fst (f w0))]) \<longrightarrow>
         (\<exists>rs. trace (snd res) = trace w @ map ev_of rs
               \<and> (\<forall>v. fst res = Inr v \<longrightarrow> rs \<noteq> [] \<and> last rs = Inr v))", OF _ run])
    fix g :: "rat \<Rightarrow> rat \<Rightarrow> (world \<Rightarrow> 'a result) \<Rightarrow> world \<Rightarrow> 'a result option"
    fix d D f w res
    assume IH: "\<And>d D f w y. g d D f w = Some y \<Longrightarrow>
        (\<forall>w0. trace (snd (f w0)) = trace w0 @ [ev_of (fst (f w0))]) \<longrightarrow>
        (\<exists>rs. trace (snd y) = trace w @ map ev_of rs
              \<and> (\<forall>v. fst y = Inr v \<longrightarrow> rs \<noteq> [] \<and> last rs = Inr v))"
    assume step:
      "(if is_set D w then Some (Inl (ClientError TIMEOUT), w)
        else case f w of
               (Inl e, w1) \<Rightarrow>
                 (case e of
                    ApduError code \<Rightarrow>
                      if code = USE_NOT_SATISFIED then g d D f (wait D d w1)
                      else Some (Inl e, w1)
                  | _ \<Rightarrow> Some (Inl e, w1))
             | (Inr v, w1) \<Rightarrow> Some (Inr v, w1)) = Some res"
    obtain r w1 where fw: "f w = (r, w1)" by (cases "f w")
    show "(\<forall>w0. trace (snd (f w0)) = trace w0 @ [ev_of (fst (f w0))]) \<longrightarrow>
          (\<exists>rs. trace (snd res) = trace w @ map ev_of rs
                \<and> (\<forall>v. fst res = Inr v \<longrightarrow> rs \<noteq> [] \<and> last rs = Inr v))"
    proof
      assume evs: "\<forall>w0. trace (snd (f w0)) = trace w0 @ [ev_of (fst (f w0))]"
      then have t1: "trace w1 = trace w @ [ev_of r]" using fw by (metis fst_conv snd_conv)
      show "\<exists>rs. trace (snd res) = trace w @ map ev_of rs
                \<and> (\<forall>v. fst res = Inr v \<longrightarrow> rs \<noteq> [] \<and> last rs = Inr v)"
      proof (cases "is_set D w")
        case True
        with step have "res = (Inl (ClientError TIMEOUT), w)" by simp
        then show ?thesis by (intro exI [where x = "[]"]) simp
      next
        case False
        show ?thesis
        proof (cases "r = Inl (ApduError USE_NOT_SATISFIED)")
          case True
          with step False fw have "g d D f (wait D d w1) = Some res" by simp
          from IH [OF this] evs obtain rs
            where rs: "trace (snd res) = trace (wait D d w1) @ map ev_of rs"
              "\<forall>v. fst res = Inr v \<longrightarrow> rs \<noteq> [] \<and> last rs = Inr v"
            by blast
          show ?thesis
            apply (rule exI [where x = "r # rs"])
            using rs t1 by (simp add: trace_wait)
        next
          case other: False
          have "res = (r, w1)"
          proof (cases r)
            case (Inr v)
            with step False fw show ?thesis by simp
          next
            case (Inl e)
            with step False fw other show ?thesis by (cases e) (auto split: if_splits)
          qed
          then show ?thesis
            apply (intro exI [where x = "[r]"])
            using t1 by simp
        qed
      qed
    qed
  qed
  with ev show ?thesis by blast
qed

lemma call_polling_register_trace:
  assumes "call_polling d timeout (CTAP1_register dev c a) w = Some (r, w')"
  shows "\<exists>rs. trace w' = trace w @ map (\<lambda>r. (Register c a, map_sum id RReg r)) rs
              \<and> (\<forall>v. r = Inr v \<longrightarrow> rs \<noteq> [] \<and> last rs = Inr v)"
proof -
  have ev: "\<And>w0. trace (snd (CTAP1_register dev c a w0)) =
                 trace w0 @ [(Register c a, map_sum id RReg (fst (CTAP1_register dev c a w0)))]"
    by (simp add: CTAP1_register_def advance_def split: prod.splits)
  from poll_loop_trace [where ev_of = "\<lambda>r. (Register c a, map_sum id RReg r)",
      OF assms [unfolded call_polling_def] ev]
  show ?thesis by simp
qed

lemma call_polling_authenticate_trace:
  assumes "call_polling d timeout (CTAP1_authenticate dev c a kh chk) w = Some (r, w')"
  shows "\<exists>rs. trace w' = trace w @ map (\<lambda>r. (Authenticate c a kh chk, map_sum id RSig r)) rs
              \<and> (\<forall>v. r = Inr v \<longrightarrow> rs \<noteq> [] \<and> last rs = Inr v)"
proof -
  have ev: "\<And>w0. trace (snd (CTAP1_authenticate dev c a kh chk w0)) =
                 trace w0 @ [(Authenticate c a kh chk,
                              map_sum id RSig (fst (CTAP1_authenticate dev c a kh chk w0)))]"
    by (simp add: CTAP1_authenticate_def advance_def split: prod.splits)
  from poll_loop_trace [where ev_of = "\<lambda>r. (Authenticate c a kh chk, map_sum id RSig r)",
      OF assms [unfolded call_polling_def] ev]
  show ?thesis by simp
qed

text \<open>
  C1. Every successful \<open>make_credential\<close> on the CTAP1 path ends with a \<open>register\<close>
  command, carrying the hash of the client data and \<open>SHA-256(rp.id)\<close>, that the
  authenticator answered with a registration response; the attestation object returned
  is made from that response: format \<open>fido-u2f\<close>; authenticator data with
  \<open>SHA-256(rp.id)\<close> as hash of the relying party, flags \<open>0x41\<close>, signature counter 0 and
  attested credential data of 16 zero bytes as aaguid, the response's key handle as
  credential id and the COSE key \<open>{1: 2, 3: -7, -1: 1, -2: public_key[1:33],
  -3: public_key[33:65]}\<close>; attestation statement \<open>{x5c: [certificate], sig: signature}\<close>.
\<close>

theorem ctap1_attestation_synthesis:
  assumes "ctap1_make_credential p self dev cd rp user algos exclude_list extensions
             rk uv pin timeout w = Some (Inr att, w')"
  shows "\<exists>reg_resp.
           trace w' \<noteq> []
           \<and> last (trace w') =
               (Register (hash p cd) (sha256 p (encode p (rp_id rp))), Inr (RReg reg_resp))
           \<and> fmt att = ''fido-u2f''
           \<and> rp_id_hash (auth_data att) = sha256 p (encode p (rp_id rp))
           \<and> flags (auth_data att) = 0x41
           \<and> sign_count (auth_data att) = 0
           \<and> credential_data (auth_data att) =
               Some \<lparr>aaguid = replicate 16 0,
                     credential_id = key_handle reg_resp,
                     cose_public_key =
                       [(1, CInt 2), (3, CInt (- 7)), (- 1, CInt 1),
                        (- 2, CBytes (take 32 (drop 1 (public_key reg_resp)))),
                        (- 3, CBytes (take 32 (drop 33 (public_key reg_resp))))]\<rparr>
           \<and> att_stmt att = \<lparr>x5c = [certificate reg_resp], sig = signature reg_resp\<rparr>"
proof -
  let ?app = "sha256 p (encode p (rp_id rp))"
  from assms obtain w1 reg_resp
    where poll: "call_polling (ctap1_poll_delay self) timeout
                   (CTAP1_register dev (hash p cd) ?app) w1 = Some (Inr reg_resp, w')"
      and att: "att = u2f_attestation ?app reg_resp"
    by (auto simp: ctap1_make_credential_def Let_def
        split: if_splits prod.splits sum.splits option.splits)
  from call_polling_register_trace [OF poll] obtain rs
    where rs: "trace w' = trace w1 @ map (\<lambda>r. (Register (hash p cd) ?app, map_sum id RReg r)) rs"
      "rs \<noteq> []" "last rs = Inr reg_resp"
    by blast
  have t: "trace w' \<noteq> []" using rs(1,2) by simp
  have l: "last (trace w') = (Register (hash p cd) ?app, Inr (RReg reg_resp))"
    using rs by (simp add: last_map)
  show ?thesis
    apply (rule exI [where x = reg_resp])
    using t l att
    by (simp add: u2f_attestation_def AttestationObject_create_def AuthenticatorData_create_def
        AttestedCredentialData_create_def slice_def)
qed

lemma ex_ctap1_make_credential:
  "ctap1_make_credential ex_prims ex_fido2_client ex_ctap1 ex_client_data ex_rp (JObj []) [- 7]
     None None False False None None ex_world =
   Some (Inr (u2f_attestation (sha256 ex_prims (encode ex_prims ''example.com'')) ex_reg),
         \<lparr>now = 1 / 4,
          trace =
            [(Register (hash ex_prims ex_client_data)
                (sha256 ex_prims (encode ex_prims ''example.com'')),
              Inl (ApduError USE_NOT_SATISFIED)),
             (Register (hash ex_prims ex_client_data)
                (sha256 ex_prims (encode ex_prims ''example.com'')),
              Inr (RReg ex_reg))]\<rparr>)"
proof -
  have d: "ctap1_poll_delay ex_fido2_client = 1 / 4"
    by (simp add: ex_fido2_client_def Fido2Client_init_def)
  have poll: "call_polling (1 / 4) None
                (CTAP1_register ex_ctap1 (hash ex_prims ex_client_data)
                   (sha256 ex_prims (encode ex_prims ''example.com''))) ex_world =
              Some (Inr ex_reg,
                \<lparr>now = 1 / 4,
                 trace =
                   [(Register (hash ex_prims ex_client_data)
                       (sha256 ex_prims (encode ex_prims ''example.com'')),
                     Inl (ApduError USE_NOT_SATISFIED)),
                    (Register (hash ex_prims ex_client_data)
                       (sha256 ex_prims (encode ex_prims ''example.com'')),
                     Inr (RReg ex_reg))]\<rparr>)"
    using ex_poll_register [OF ex_world_untouched, of 30]
    by (simp add: call_polling_def timeout_or_30_def ex_world_def)
  show ?thesis
    by (simp add: ctap1_make_credential_def d poll ex_rp_def Let_def)
qed

text \<open>
  Scenario 2 of the spec: the user touches the authenticator after the first poll. The
  attestation object carries the key handle \<open>[7, 7]\<close>, the two halves of the public key,
  the certificate and the signature of the registration response.
\<close>

theorem ctap1_attestation_synthesis_witness:
  "\<exists>att w'.
     ctap1_make_credential ex_prims ex_fido2_client ex_ctap1 ex_client_data ex_rp (JObj []) [- 7]
       None None False False None None ex_world = Some (Inr att, w')
     \<and> last (trace w') =
         (Register (hash ex_prims ex_client_data)
            (sha256 ex_prims (encode ex_prims ''example.com'')), Inr (RReg ex_reg))
     \<and> fmt att = ''fido-u2f''
     \<and> rp_id_hash (auth_data att) = sha256 ex_prims (encode ex_prims ''example.com'')
     \<and> flags (auth_data att) = 0x41
     \<and> sign_count (auth_data att) = 0
     \<and> credential_data (auth_data att) =
         Some \<lparr>aaguid = replicate 16 0,
               credential_id = [7, 7],
               cose_public_key =
                 [(1, CInt 2), (3, CInt (- 7)), (- 1, CInt 1),
                  (- 2, CBytes (replicate 32 1)), (- 3, CBytes (replicate 32 2))]\<rparr>
     \<and> att_stmt att = \<lparr>x5c = [[9]], sig = [8]\<rparr>"
proof -
  from ctap1_attestation_synthesis [OF ex_ctap1_make_credential] obtain reg_resp
    where c: "last [(Register (hash ex_prims ex_client_data)
                (sha256 ex_prims (encode ex_prims ''example.com'')),
              Inl (ApduError USE_NOT_SATISFIED)),
             (Register (hash ex_prims ex_client_data)
                (sha256 ex_prims (encode ex_prims ''example.com'')),
              Inr (RReg ex_reg))] =
            (Register (hash ex_prims ex_client_data)
               (sha256 ex_prims (encode ex_prims (rp_id ex_rp))), Inr (RReg reg_resp))"
      and a: "credential_data
               (auth_data (u2f_attestation (sha256 ex_prims (encode ex_prims ''example.com''))
                  ex_reg)) =
             Some \<lparr>aaguid = replicate 16 0,
                   credential_id = key_handle reg_resp,
                   cose_public_key =
                     [(1, CInt 2), (3, CInt (- 7)), (- 1, CInt 1),
                      (- 2, CBytes (take 32 (drop 1 (public_key reg_resp)))),
                      (- 3, CBytes (take 32 (drop 33 (public_key reg_resp))))]\<rparr>"
    by auto
  from c have reg: "reg_resp = ex_reg" by simp
  have pk1: "take 32 (drop 1 (public_key ex_reg)) = replicate 32 1"
    by (simp add: ex_reg_def)
  have pk2: "take 32 (drop 33 (public_key ex_reg)) = replicate 32 2"
    by (simp add: ex_reg_def)
  have kh: "key_handle ex_reg = [7, 7]" by (simp add: ex_reg_def)
  have rest: "fmt (u2f_attestation h ex_reg) = ''fido-u2f''
      \<and> rp_id_hash (auth_data (u2f_attestation h ex_reg)) = h
      \<and> flags (auth_data (u2f_attestation h ex_reg)) = 0x41
      \<and> sign_count (auth_data (u2f_attestation h ex_reg)) = 0
      \<and> att_stmt (u2f_attestation h ex_reg) = \<lparr>x5c = [[9]], sig = [8]\<rparr>" for h
    by (simp add: u2f_attestation_def AttestationObject_create_def AuthenticatorData_create_def
        ex_reg_def)
  show ?thesis
    apply (rule exI [where x = "u2f_attestation (sha256 ex_prims (encode ex_prims ''example.com'')) ex_reg"])
    apply (rule exI [where x = "\<lparr>now = 1 / 4,
          trace =
            [(Register (hash ex_prims ex_client_data)
                (sha256 ex_prims (encode ex_prims ''example.com'')),
              Inl (ApduError USE_NOT_SATISFIED)),
             (Register (hash ex_prims ex_client_data)
                (sha256 ex_prims (encode ex_prims ''example.com'')),
              Inr (RReg ex_reg))]\<rparr>"])
    using ex_ctap1_make_credential a rest pk1 pk2 kh unfolding reg
    by simp
qed

section \<open>The check-only probes of U2fClient.register\<close>


subsection \<open>The first loop of \<open>U2fClient.register\<close>\<close>

lemma register_check_keys_probes:
  "\<exists>probes.
     trace (snd (register_check_keys p self app_id v keys w)) = trace w @ probes
     \<and> list_all2 (probe_of p app_id) probes
         (take (length probes) (filter (\<lambda>k. version k = v) keys))
     \<and> length probes \<le> length (filter (\<lambda>k. version k = v) keys)
     \<and> list_all (\<lambda>ev. probe_ignored (snd ev)) (butlast probes)
     \<and> (fst (register_check_keys p self app_id v keys w) = Inr () \<longrightarrow>
          list_all (\<lambda>ev. probe_ignored (snd ev)) probes
          \<and> length probes = length (filter (\<lambda>k. version k = v) keys))
     \<and> (probes \<noteq> [] \<and> probe_rejects (snd (last probes)) \<longrightarrow>
          fst (register_check_keys p self app_id v keys w) = Inl (ClientError DEVICE_INELIGIBLE))
     \<and> ((\<forall>k \<in> set (filter (\<lambda>k. version k = v) keys).
            U2fClient_verify_app_id self (key_app_id app_id k) = Inr ()
            \<and> (\<exists>kh. websafe_decode p (keyHandle k) = Inr kh))
         \<and> list_all (\<lambda>ev. probe_ignored (snd ev)) probes \<longrightarrow>
          fst (register_check_keys p self app_id v keys w) = Inr ())"
  (is "\<exists>probes. ?P keys w probes")
proof (induction keys arbitrary: w)
  case Nil
  show ?case by (rule exI [where x = "[]"]) simp
next
  case (Cons key keys)
  show ?case
  proof (cases "version key = v")
    case False
    from Cons.IH [of w] obtain probes where "?P keys w probes" by blast
    with False have "?P (key # keys) w probes" by simp
    then show ?thesis by blast
  next
    case True
    note ver = True
    show ?thesis
    proof (cases "U2fClient_verify_app_id self (key_app_id app_id key)")
      case (Inl e)
      then have "register_check_keys p self app_id v (key # keys) w = (Inl e, w)"
        using ver by (simp add: key_app_id_def Let_def)
      then have "?P (key # keys) w []" using ver Inl by simp
      then show ?thesis by blast
    next
      case (Inr u)
      note verify = Inr
      show ?thesis
      proof (cases "websafe_decode p (keyHandle key)")
        case (Inl e)
        then have "register_check_keys p self app_id v (key # keys) w = (Inl e, w)"
          using ver verify by (simp add: key_app_id_def Let_def)
        then have "?P (key # keys) w []" using ver Inl by simp
        then show ?thesis by blast
      next
        case (Inr kh)
        note dec = Inr
        let ?app = "sha256 p (encode p (key_app_id app_id key))"
        obtain ra w1 where auth:
          "CTAP1_authenticate (u2f_ctap self) dummy_param ?app kh True w = (ra, w1)"
          by (cases "CTAP1_authenticate (u2f_ctap self) dummy_param ?app kh True w")
        let ?ev = "(Authenticate dummy_param ?app kh True, map_sum id RSig ra)"
        have t1: "trace w1 = trace w @ [?ev]" by (rule trace_CTAP1_authenticate [OF auth])
        have pr: "probe_of p app_id ?ev key"
          by (simp add: probe_of_def dec dummy_param_def)
        have step: "register_check_keys p self app_id v (key # keys) w =
            (case ra of
               Inr s \<Rightarrow> (Inl (ClientError DEVICE_INELIGIBLE), w1)
             | Inl e \<Rightarrow>
                 (case e of
                    ApduError code \<Rightarrow>
                      if code = USE_NOT_SATISFIED
                      then (Inl (ClientError DEVICE_INELIGIBLE), w1)
                      else register_check_keys p self app_id v keys w1
                  | _ \<Rightarrow> (Inl e, w1)))"
          using ver verify dec auth
          by (simp add: key_app_id_def Let_def split: sum.splits)
        show ?thesis
        proof (cases "probe_ignored (map_sum id RSig ra)")
          case True
          then obtain code where ra: "ra = Inl (ApduError code)" "code \<noteq> USE_NOT_SATISFIED"
            by (cases ra) (auto simp: probe_ignored_def split: sum.splits exn.splits)
          with step have rec: "register_check_keys p self app_id v (key # keys) w =
              register_check_keys p self app_id v keys w1" by simp
          let ?ms = "filter (\<lambda>k. version k = v) keys"
          let ?ign = "\<lambda>ev :: event. probe_ignored (snd ev)"
          let ?R = "register_check_keys p self app_id v keys w1"
          from Cons.IH [of w1] obtain probes
            where i1: "trace (snd ?R) = trace w1 @ probes"
              and i2: "list_all2 (probe_of p app_id) probes (take (length probes) ?ms)"
              and i3: "length probes \<le> length ?ms"
              and i4: "list_all ?ign (butlast probes)"
              and i5: "fst ?R = Inr () \<longrightarrow> list_all ?ign probes \<and> length probes = length ?ms"
              and i6: "probes \<noteq> [] \<and> probe_rejects (snd (last probes)) \<longrightarrow>
                         fst ?R = Inl (ClientError DEVICE_INELIGIBLE)"
              and i7: "(\<forall>k \<in> set ?ms.
                          U2fClient_verify_app_id self (key_app_id app_id k) = Inr ()
                          \<and> (\<exists>kh. websafe_decode p (keyHandle k) = Inr kh))
                       \<and> list_all ?ign probes \<longrightarrow> fst ?R = Inr ()"
            by blast
          have ms: "filter (\<lambda>k. version k = v) (key # keys) = key # ?ms" using ver by simp
          have nrej: "\<not> probe_rejects (map_sum id RSig ra)"
            using ra by (simp add: probe_rejects_def)
          have g1: "trace (snd ?R) = trace w @ ?ev # probes" using i1 t1 by simp
          have g2: "list_all2 (probe_of p app_id) (?ev # probes)
                      (take (length (?ev # probes)) (key # ?ms))"
            using i2 pr by simp
          have g3: "length (?ev # probes) \<le> length (key # ?ms)" using i3 by simp
          have g4: "list_all ?ign (butlast (?ev # probes))" using i4 True by simp
          have g5: "fst ?R = Inr () \<longrightarrow>
                      list_all ?ign (?ev # probes) \<and> length (?ev # probes) = length (key # ?ms)"
            using i5 True by simp
          have g6: "?ev # probes \<noteq> [] \<and> probe_rejects (snd (last (?ev # probes))) \<longrightarrow>
                      fst ?R = Inl (ClientError DEVICE_INELIGIBLE)"
            using i6 nrej by (cases "probes = []") simp_all
          have g7: "(\<forall>k \<in> set (key # ?ms).
                          U2fClient_verify_app_id self (key_app_id app_id k) = Inr ()
                          \<and> (\<exists>kh. websafe_decode p (keyHandle k) = Inr kh))
                       \<and> list_all ?ign (?ev # probes) \<longrightarrow> fst ?R = Inr ()"
            using i7 by simp
          have "?P (key # keys) w (?ev # probes)"
            unfolding rec ms using g1 g2 g3 g4 g5 g6 g7 by (intro conjI)
          then show ?thesis by blast
        next
          case False
          have "fst (register_check_keys p self app_id v (key # keys) w) \<noteq> Inr ()
                \<and> snd (register_check_keys p self app_id v (key # keys) w) = w1
                \<and> (probe_rejects (map_sum id RSig ra) \<longrightarrow>
                     fst (register_check_keys p self app_id v (key # keys) w) =
                       Inl (ClientError DEVICE_INELIGIBLE))"
            using False unfolding step
            by (cases ra) (auto simp: probe_ignored_def probe_rejects_def split: sum.splits exn.splits)
          then have "?P (key # keys) w [?ev]"
            using ver t1 pr False by simp
          then show ?thesis by blast
        qed
      qed
    qed
  qed
qed


lemma probes_not_register:
  "list_all2 (probe_of p app_id) probes ks \<Longrightarrow> \<not> list_ex is_register probes"
proof (induction rule: list_all2_induct)
  case Nil
  show ?case by simp
next
  case (Cons ev probes k ks)
  from Cons(1) have "\<not> is_register ev"
    by (cases ev) (auto simp: probe_of_def split: sum.splits)
  with Cons show ?case by simp
qed

lemma call_polling_register_returns:
  assumes "0 < d"
  shows "\<exists>res. call_polling d timeout (CTAP1_register dev c a) w = Some res"
  unfolding call_polling_def
  by (rule poll_loop_returns [OF assms]) (simp add: CTAP1_register_def advance_def split: prod.splits)

lemma U2fClient_register_returns:
  assumes d: "0 < poll_delay self"
  shows "\<exists>res. U2fClient_register p self app_id register_requests registered_keys timeout w =
           Some res"
proof (cases "U2fClient_verify_app_id self app_id")
  case (Inl e)
  then show ?thesis by (simp add: U2fClient_register_def)
next
  case verify: (Inr u)
  obtain rv w1 where ver: "CTAP1_get_version (u2f_ctap self) w = (rv, w1)"
    by (cases "CTAP1_get_version (u2f_ctap self) w")
  show ?thesis
  proof (cases rv)
    case (Inl e)
    with verify ver show ?thesis by (simp add: U2fClient_register_def)
  next
    case v: (Inr v)
    obtain r2 w2 where loop: "register_check_keys p self app_id v registered_keys w1 = (r2, w2)"
      by (cases "register_check_keys p self app_id v registered_keys w1")
    show ?thesis
    proof (cases r2)
      case (Inl e)
      with verify ver v loop show ?thesis by (simp add: U2fClient_register_def)
    next
      case r2: (Inr u2)
      show ?thesis
      proof (cases "find_challenge v register_requests")
        case None
        with verify ver v loop r2 show ?thesis by (simp add: U2fClient_register_def)
      next
        case c: (Some c)
        show ?thesis
        proof (cases "ClientData_build p
             [(''typ'', JStr ''navigator.id.finishEnrollment''),
              (''challenge'', c),
              (''origin'', JStr (u2f_origin self))]")
          case (Inl e)
          with verify ver v loop r2 c show ?thesis by (simp add: U2fClient_register_def)
        next
          case cd: (Inr cd)
          from call_polling_register_returns [OF d] obtain r3 w3
            where "call_polling (poll_delay self) timeout
                     (CTAP1_register (u2f_ctap self) (hash p cd) (sha256 p (encode p app_id))) w2 =
                   Some (r3, w3)"
            by (metis surj_pair)
          with verify ver v loop r2 c cd show ?thesis
            by (cases r3) (simp_all add: U2fClient_register_def)
        qed
      qed
    qed
  qed
qed

lemma U2fClient_register_stops:
  assumes "U2fClient_verify_app_id self app_id = Inr ()"
    and "CTAP1_get_version (u2f_ctap self) w = (Inr v, w1)"
    and "register_check_keys p self app_id v registered_keys w1 = (Inl e, w2)"
  shows "U2fClient_register p self app_id register_requests registered_keys timeout w =
           Some (Inl e, w2)"
  using assms by (simp add: U2fClient_register_def)

lemma U2fClient_register_after_probes:
  assumes verify: "U2fClient_verify_app_id self app_id = Inr ()"
    and ver: "CTAP1_get_version (u2f_ctap self) w = (Inr v, w1)"
    and loop: "register_check_keys p self app_id v registered_keys w1 = (Inr (), w2)"
    and run: "U2fClient_register p self app_id register_requests registered_keys timeout w =
                Some (r, w')"
  shows "\<exists>evs. trace w' = trace w2 @ evs \<and> list_all is_register evs"
proof (cases "find_challenge v register_requests")
  case None
  with verify ver loop run have "w' = w2" by (simp add: U2fClient_register_def)
  then show ?thesis by (intro exI [where x = "[]"]) simp
next
  case c: (Some c)
  show ?thesis
  proof (cases "ClientData_build p
       [(''typ'', JStr ''navigator.id.finishEnrollment''),
        (''challenge'', c),
        (''origin'', JStr (u2f_origin self))]")
    case (Inl e)
    with verify ver loop run c have "w' = w2" by (simp add: U2fClient_register_def)
    then show ?thesis by (intro exI [where x = "[]"]) simp
  next
    case cd: (Inr cd)
    let ?poll = "call_polling (poll_delay self) timeout
                   (CTAP1_register (u2f_ctap self) (hash p cd) (sha256 p (encode p app_id))) w2"
    from verify ver loop run c cd obtain r3 where poll: "?poll = Some (r3, w')"
      by (cases ?poll) (auto simp: U2fClient_register_def split: sum.splits prod.splits)
    from call_polling_register_trace [OF poll] obtain rs
      where "trace w' = trace w2 @
               map (\<lambda>r. (Register (hash p cd) (sha256 p (encode p app_id)), map_sum id RReg r)) rs"
      by blast
    then show ?thesis
      by (intro exI [where x = "map (\<lambda>r. (Register (hash p cd) (sha256 p (encode p app_id)),
                                            map_sum id RReg r)) rs"])
         (simp add: list_all_iff)
  qed
qed

text \<open>
  C7. \<open>U2fClient.register\<close>, once the application id is verified and the device has said
  its version \<open>v\<close>. The commands that follow \<open>get_version\<close> are check-only probes, one for
  each registered key of version \<open>v\<close>, in the order of the keys and as far as the loop
  gets: each a check-only \<open>authenticate\<close> with 32 zero bytes as challenge parameter. Every
  probe but the last was answered with an \<open>ApduError\<close> other than \<open>USE_NOT_SATISFIED\<close>.
  If the last probe succeeded or failed with \<open>USE_NOT_SATISFIED\<close>, \<open>register\<close> raises
  \<open>DEVICE_INELIGIBLE\<close> and the trace ends there: no \<open>register\<close> command is issued. If all
  probes were answered with another \<open>ApduError\<close> (and every key of version \<open>v\<close> passes
  the verifier and has a key handle that decodes), every such key has been probed.
  \<open>register\<close> commands follow the probes only in that case. With a positive \<open>poll_delay\<close>
  the call always returns.
\<close>

theorem U2fClient_register_probes:
  assumes "U2fClient_verify_app_id self app_id = Inr ()"
    and "CTAP1_get_version (u2f_ctap self) w = (Inr v, w1)"
  shows "\<exists>probes.
     list_all2 (probe_of p app_id) probes
       (take (length probes) (filter (\<lambda>k. version k = v) registered_keys))
     \<and> list_all (\<lambda>ev. probe_ignored (snd ev)) (butlast probes)
     \<and> (probes \<noteq> [] \<and> probe_rejects (snd (last probes)) \<longrightarrow>
          (\<exists>w2. U2fClient_register p self app_id register_requests registered_keys timeout w =
                  Some (Inl (ClientError DEVICE_INELIGIBLE), w2)
                \<and> trace w2 = trace w @ (GetVersion, Inr (RVersion v)) # probes
                \<and> \<not> list_ex is_register ((GetVersion, Inr (RVersion v)) # probes)))
     \<and> ((\<forall>k \<in> set (filter (\<lambda>k. version k = v) registered_keys).
            U2fClient_verify_app_id self (key_app_id app_id k) = Inr ()
            \<and> (\<exists>kh. websafe_decode p (keyHandle k) = Inr kh))
         \<and> list_all (\<lambda>ev. probe_ignored (snd ev)) probes \<longrightarrow>
          length probes = length (filter (\<lambda>k. version k = v) registered_keys))
     \<and> (\<forall>r w'. U2fClient_register p self app_id register_requests registered_keys timeout w =
                 Some (r, w') \<longrightarrow>
          (\<exists>evs. trace w' = trace w @ (GetVersion, Inr (RVersion v)) # probes @ evs
                 \<and> list_all is_register evs
                 \<and> (evs \<noteq> [] \<longrightarrow>
                      list_all (\<lambda>ev. probe_ignored (snd ev)) probes
                      \<and> length probes = length (filter (\<lambda>k. version k = v) registered_keys))))
     \<and> (0 < poll_delay self \<longrightarrow>
          (\<exists>r w'. U2fClient_register p self app_id register_requests registered_keys timeout w =
                    Some (r, w')))"
proof -
  let ?ms = "filter (\<lambda>k. version k = v) registered_keys"
  let ?ign = "\<lambda>ev :: event. probe_ignored (snd ev)"
  let ?R = "register_check_keys p self app_id v registered_keys w1"
  let ?U = "U2fClient_register p self app_id register_requests registered_keys timeout w"
  let ?gv = "(GetVersion, Inr (RVersion v)) :: event"
  obtain r2 w2 where loop: "?R = (r2, w2)" by (cases ?R)
  from register_check_keys_probes [of p self app_id v registered_keys w1] obtain probes
    where i1: "trace w2 = trace w1 @ probes"
      and i2: "list_all2 (probe_of p app_id) probes (take (length probes) ?ms)"
      and i4: "list_all ?ign (butlast probes)"
      and i5: "r2 = Inr () \<longrightarrow> list_all ?ign probes \<and> length probes = length ?ms"
      and i6: "probes \<noteq> [] \<and> probe_rejects (snd (last probes)) \<longrightarrow>
                 r2 = Inl (ClientError DEVICE_INELIGIBLE)"
      and i7: "(\<forall>k \<in> set ?ms.
                  U2fClient_verify_app_id self (key_app_id app_id k) = Inr ()
                  \<and> (\<exists>kh. websafe_decode p (keyHandle k) = Inr kh))
               \<and> list_all ?ign probes \<longrightarrow> r2 = Inr ()"
    unfolding loop by auto
  have t1: "trace w1 = trace w @ [?gv]"
    using trace_CTAP1_get_version [OF assms(2)] by simp
  have t2: "trace w2 = trace w @ ?gv # probes" using i1 t1 by simp
  have noreg: "\<not> list_ex is_register (?gv # probes)"
    using probes_not_register [OF i2] by simp
  have c3: "probes \<noteq> [] \<and> probe_rejects (snd (last probes)) \<longrightarrow>
          (\<exists>w2. ?U = Some (Inl (ClientError DEVICE_INELIGIBLE), w2)
                \<and> trace w2 = trace w @ ?gv # probes
                \<and> \<not> list_ex is_register (?gv # probes))"
  proof
    assume "probes \<noteq> [] \<and> probe_rejects (snd (last probes))"
    with i6 loop have "?R = (Inl (ClientError DEVICE_INELIGIBLE), w2)" by simp
    from U2fClient_register_stops [OF assms this]
    have "?U = Some (Inl (ClientError DEVICE_INELIGIBLE), w2)" .
    with t2 noreg show "\<exists>w2. ?U = Some (Inl (ClientError DEVICE_INELIGIBLE), w2)
                \<and> trace w2 = trace w @ ?gv # probes
                \<and> \<not> list_ex is_register (?gv # probes)"
      by blast
  qed
  have c4: "(\<forall>k \<in> set ?ms.
                  U2fClient_verify_app_id self (key_app_id app_id k) = Inr ()
                  \<and> (\<exists>kh. websafe_decode p (keyHandle k) = Inr kh))
               \<and> list_all ?ign probes \<longrightarrow> length probes = length ?ms"
    using i7 i5 by blast
  have c5: "\<forall>r w'. ?U = Some (r, w') \<longrightarrow>
          (\<exists>evs. trace w' = trace w @ ?gv # probes @ evs
                 \<and> list_all is_register evs
                 \<and> (evs \<noteq> [] \<longrightarrow> list_all ?ign probes \<and> length probes = length ?ms))"
  proof (intro allI impI)
    fix r w'
    assume run: "?U = Some (r, w')"
    show "\<exists>evs. trace w' = trace w @ ?gv # probes @ evs
                 \<and> list_all is_register evs
                 \<and> (evs \<noteq> [] \<longrightarrow> list_all ?ign probes \<and> length probes = length ?ms)"
    proof (cases r2)
      case (Inl e)
      with loop have "?R = (Inl e, w2)" by simp
      from U2fClient_register_stops [OF assms this] run have "w' = w2" by simp
      with t2 show ?thesis by (intro exI [where x = "[]"]) simp
    next
      case (Inr u)
      with loop have l: "?R = (Inr (), w2)" by simp
      from U2fClient_register_after_probes [OF assms l run] obtain evs
        where "trace w' = trace w2 @ evs" "list_all is_register evs" by blast
      with t2 i5 Inr show ?thesis by (intro exI [where x = evs]) simp
    qed
  qed
  have c6: "0 < poll_delay self \<longrightarrow> (\<exists>r w'. ?U = Some (r, w'))"
    using U2fClient_register_returns [of self p app_id register_requests registered_keys timeout w]
    by auto
  show ?thesis
    apply (rule exI [where x = probes])
    using i2 i4 c3 c4 c5 c6 by (intro conjI)
qed


lemma ex_get_version:
  "CTAP1_get_version ex_ctap1 w =
     (Inr ''U2F_V2'',
      \<lparr>now = now w, trace = trace w @ [(GetVersion, Inr (RVersion ''U2F_V2''))]\<rparr>)"
  by (simp add: CTAP1_get_version_def ex_ctap1_def advance_def)

lemma ex_authenticate_other:
  "kh \<noteq> [7, 7] \<Longrightarrow>
   CTAP1_authenticate ex_ctap1 c a kh check_only w =
     (Inl (ApduError 0x6A80),
      \<lparr>now = now w,
       trace = trace w @ [(Authenticate c a kh check_only, Inl (ApduError 0x6A80))]\<rparr>)"
  by (simp add: CTAP1_authenticate_def ex_ctap1_def advance_def)

lemma ex_authenticate_check_only:
  "CTAP1_authenticate ex_ctap1 c a [7, 7] True w =
     (Inl (ApduError USE_NOT_SATISFIED),
      \<lparr>now = now w,
       trace = trace w @ [(Authenticate c a [7, 7] True, Inl (ApduError USE_NOT_SATISFIED))]\<rparr>)"
  by (simp add: CTAP1_authenticate_def ex_ctap1_def advance_def)

lemma ex_u2f_client_fields:
  "u2f_ctap ex_u2f_client = ex_ctap1"
  "u2f_origin ex_u2f_client = ''https://example.com''"
  "poll_delay ex_u2f_client = 1 / 4"
  "U2fClient_verify_app_id ex_u2f_client app_id =
     (if app_id = ''https://example.com'' then Inr () else Inl (ClientError BAD_REQUEST))"
  by (simp_all add: ex_u2f_client_def U2fClient_init_def CTAP1_def ex_device_def
      U2fClient_verify_app_id_def ex_prims_def)

lemma ex_websafe_decode_other: "websafe_decode ex_prims [CHR 0x01] = Inr [1]"
  by (simp add: ex_prims_def)

lemma ex_register_check_keys:
  "register_check_keys ex_prims ex_u2f_client ''https://example.com'' ''U2F_V2''
     [ex_other_key, ex_key] w =
   (Inl (ClientError DEVICE_INELIGIBLE),
    \<lparr>now = now w,
     trace = trace w @
       [(Authenticate (replicate 32 0)
           (sha256 ex_prims (encode ex_prims ''https://example.com'')) [1] True,
         Inl (ApduError 0x6A80)),
        (Authenticate (replicate 32 0)
           (sha256 ex_prims (encode ex_prims ''https://example.com'')) [7, 7] True,
         Inl (ApduError USE_NOT_SATISFIED))]\<rparr>)"
  by (simp add: ex_other_key_def ex_key_def ex_u2f_client_fields ex_websafe_decode_other
      ex_websafe_decode_key ex_authenticate_other ex_authenticate_check_only dummy_param_def
      USE_NOT_SATISFIED_def Let_def)

lemma ex_U2fClient_register:
  "U2fClient_register ex_prims ex_u2f_client ''https://example.com'' [ex_request]
     [ex_other_key, ex_key] None ex_world =
   Some (Inl (ClientError DEVICE_INELIGIBLE),
    \<lparr>now = 0,
     trace =
       [(GetVersion, Inr (RVersion ''U2F_V2'')),
        (Authenticate (replicate 32 0)
           (sha256 ex_prims (encode ex_prims ''https://example.com'')) [1] True,
         Inl (ApduError 0x6A80)),
        (Authenticate (replicate 32 0)
           (sha256 ex_prims (encode ex_prims ''https://example.com'')) [7, 7] True,
         Inl (ApduError USE_NOT_SATISFIED))]\<rparr>)"
  by (simp add: U2fClient_register_def ex_u2f_client_fields ex_get_version
      ex_register_check_keys ex_world_def del: register_check_keys.simps)

text \<open>
  Scenario 4 of the spec, with a key the authenticator does not hold in front: the probe
  for that key is answered \<open>WRONG_DATA\<close> and passed over, the probe for the key the
  authenticator holds is answered \<open>USE_NOT_SATISFIED\<close>; \<open>register\<close> raises
  \<open>DEVICE_INELIGIBLE\<close> and has sent no \<open>register\<close> command.
\<close>

theorem U2fClient_register_probes_witness:
  "U2fClient_verify_app_id ex_u2f_client ''https://example.com'' = Inr ()
   \<and> CTAP1_get_version (u2f_ctap ex_u2f_client) ex_world =
       (Inr ''U2F_V2'', \<lparr>now = 0, trace = [(GetVersion, Inr (RVersion ''U2F_V2''))]\<rparr>)
   \<and> list_all2 (probe_of ex_prims ''https://example.com'')
       [(Authenticate (replicate 32 0)
           (sha256 ex_prims (encode ex_prims ''https://example.com'')) [1] True,
         Inl (ApduError 0x6A80)),
        (Authenticate (replicate 32 0)
           (sha256 ex_prims (encode ex_prims ''https://example.com'')) [7, 7] True,
         Inl (ApduError USE_NOT_SATISFIED))]
       [ex_other_key, ex_key]
   \<and> probe_ignored (Inl (ApduError 0x6A80))
   \<and> probe_rejects (Inl (ApduError USE_NOT_SATISFIED))
   \<and> (\<exists>w2. U2fClient_register ex_prims ex_u2f_client ''https://example.com'' [ex_request]
              [ex_other_key, ex_key] None ex_world =
            Some (Inl (ClientError DEVICE_INELIGIBLE), w2)
          \<and> trace w2 =
              [(GetVersion, Inr (RVersion ''U2F_V2'')),
               (Authenticate (replicate 32 0)
                  (sha256 ex_prims (encode ex_prims ''https://example.com'')) [1] True,
                Inl (ApduError 0x6A80)),
               (Authenticate (replicate 32 0)
                  (sha256 ex_prims (encode ex_prims ''https://example.com'')) [7, 7] True,
                Inl (ApduError USE_NOT_SATISFIED))]
          \<and> \<not> list_ex is_register (trace w2))"
proof -
  let ?app = "sha256 ex_prims (encode ex_prims ''https://example.com'')"
  let ?gv = "(GetVersion, Inr (RVersion ''U2F_V2'')) :: event"
  let ?p1 = "(Authenticate (replicate 32 0) ?app [1] True, Inl (ApduError 0x6A80)) :: event"
  let ?p2 = "(Authenticate (replicate 32 0) ?app [7, 7] True,
              Inl (ApduError USE_NOT_SATISFIED)) :: event"
  let ?U = "U2fClient_register ex_prims ex_u2f_client ''https://example.com'' [ex_request]
              [ex_other_key, ex_key] None ex_world"
  have h1: "U2fClient_verify_app_id ex_u2f_client ''https://example.com'' = Inr ()"
    by (simp add: ex_u2f_client_fields)
  have h2: "CTAP1_get_version (u2f_ctap ex_u2f_client) ex_world =
       (Inr ''U2F_V2'', \<lparr>now = 0, trace = [?gv]\<rparr>)"
    by (simp add: ex_u2f_client_fields ex_get_version ex_world_def)
  have ms: "filter (\<lambda>k. version k = ''U2F_V2'') [ex_other_key, ex_key] = [ex_other_key, ex_key]"
    by (simp add: ex_other_key_def ex_key_def)
  from U2fClient_register_probes [OF h1 h2, where p = ex_prims
      and registered_keys = "[ex_other_key, ex_key]" and register_requests = "[ex_request]"
      and timeout = None]
  obtain probes
    where c1: "list_all2 (probe_of ex_prims ''https://example.com'') probes
                 (take (length probes) [ex_other_key, ex_key])"
      and c2: "list_all (\<lambda>ev. probe_ignored (snd ev)) (butlast probes)"
      and c3: "probes \<noteq> [] \<and> probe_rejects (snd (last probes)) \<longrightarrow>
          (\<exists>w2. ?U = Some (Inl (ClientError DEVICE_INELIGIBLE), w2)
                \<and> trace w2 = trace ex_world @ ?gv # probes
                \<and> \<not> list_ex is_register (?gv # probes))"
      and c5: "\<forall>r w'. ?U = Some (r, w') \<longrightarrow>
          (\<exists>evs. trace w' = trace ex_world @ ?gv # probes @ evs \<and> list_all is_register evs)"
    unfolding ms by blast
  from c5 ex_U2fClient_register obtain evs
    where evs: "[?gv, ?p1, ?p2] = trace ex_world @ ?gv # probes @ evs" "list_all is_register evs"
    by fastforce
  then have app: "probes @ evs = [?p1, ?p2]" by (simp add: ex_world_def)
  have "evs = []"
  proof (rule ccontr)
    assume ne: "evs \<noteq> []"
    then have "last evs = last (probes @ evs)" by simp
    also have "\<dots> = ?p2" unfolding app by simp
    finally have "last evs = ?p2" .
    moreover have "is_register (last evs)" using evs(2) ne by (simp add: list_all_iff)
    ultimately show False by simp
  qed
  with app have probes: "probes = [?p1, ?p2]" by simp
  have rej: "probe_rejects (Inl (ApduError USE_NOT_SATISFIED))"
    by (simp add: probe_rejects_def)
  from c1 have a1: "list_all2 (probe_of ex_prims ''https://example.com'') [?p1, ?p2]
                      [ex_other_key, ex_key]"
    unfolding probes by simp
  from c2 have a2: "probe_ignored (Inl (ApduError 0x6A80))" unfolding probes by simp
  from c3 rej have a3: "\<exists>w2. ?U = Some (Inl (ClientError DEVICE_INELIGIBLE), w2)
          \<and> trace w2 = [?gv, ?p1, ?p2] \<and> \<not> list_ex is_register (trace w2)"
    unfolding probes by (auto simp: ex_world_def)
  from h1 h2 a1 a2 rej a3 show ?thesis by (intro conjI)
qed

end
